theory Spec2Isabelle
  imports Complex_Main "HOL-Library.Sublist"
begin

section \<open>JavaScript values\<close>

text \<open>
  Both programs (the Expo app \<^verbatim>\<open>App.tsx\<close> and the Node script
  \<^verbatim>\<open>scripts/update-co2.mjs\<close>) work on the value that \<^verbatim>\<open>response.json()\<close>
  returns, a loosely typed JavaScript value. A JavaScript number is NaN, an infinity
  or a finite value; the finite values are kept as rationals, since the code only tests
  them for finiteness and for being zero, and otherwise passes them on. The two zeros
  of IEEE arithmetic are one value here. An object is the list of its keys and values;
  a key is looked up with \<open>map_of\<close>, and an object in memory has every key once.
\<close>

datatype jsnum = NaN | PosInfinity | NegInfinity | Finite rat

datatype jsval =
    JUndefined
  | JNull
  | JBool bool
  | JNum jsnum
  | JStr string
  | JArr "jsval list"
  | JObj "(string \<times> jsval) list"

text \<open>
  What the programs throw: \<^verbatim>\<open>new Error(message)\<close> of their own, the TypeError of
  the runtime (a property read on \<^verbatim>\<open>null\<close> or \<^verbatim>\<open>undefined\<close>, a call of
  something that is no function, an object that has no primitive value), the SyntaxError
  of \<^verbatim>\<open>response.json()\<close>, and the rejection of \<^verbatim>\<open>fetch\<close> itself.
\<close>

datatype error = Error string | TypeError | SyntaxError | NetworkError

subsection \<open>Operators of the language\<close>

fun isFinite :: "jsnum \<Rightarrow> bool" where
  "isFinite (Finite r) = True"
| "isFinite NaN = False"
| "isFinite PosInfinity = False"
| "isFinite NegInfinity = False"

text \<open>\<^verbatim>\<open>!!v\<close>: the falsy values are undefined, null, false, 0, NaN and the empty string.\<close>

fun truthy :: "jsval \<Rightarrow> bool" where
  "truthy JUndefined = False"
| "truthy JNull = False"
| "truthy (JBool b) = b"
| "truthy (JNum NaN) = False"
| "truthy (JNum (Finite r)) = (r \<noteq> 0)"
| "truthy (JNum PosInfinity) = True"
| "truthy (JNum NegInfinity) = True"
| "truthy (JStr s) = (s \<noteq> [])"
| "truthy (JArr xs) = True"
| "truthy (JObj kvs) = True"

fun typeof :: "jsval \<Rightarrow> string" where
  "typeof JUndefined = ''undefined''"
| "typeof JNull = ''object''"
| "typeof (JBool b) = ''boolean''"
| "typeof (JNum n) = ''number''"
| "typeof (JStr s) = ''string''"
| "typeof (JArr xs) = ''object''"
| "typeof (JObj kvs) = ''object''"

fun isArray :: "jsval \<Rightarrow> bool" where
  "isArray (JArr xs) = True"
| "isArray v = False"

text \<open>The values that \<^verbatim>\<open>??\<close> and \<^verbatim>\<open>?.\<close> treat as missing.\<close>

fun nullish :: "jsval \<Rightarrow> bool" where
  "nullish JUndefined = True"
| "nullish JNull = True"
| "nullish v = False"

text \<open>
  \<^verbatim>\<open>v.k\<close> for a value that is neither null nor undefined, and for the property names
  these programs read (output, content, type, json, text, output_text, ppm, source,
  timestamp): none of them is on a prototype, so only an object's own key gives a value.
\<close>

fun dot :: "jsval \<Rightarrow> string \<Rightarrow> jsval" where
  "dot (JObj kvs) k = (case map_of kvs k of None \<Rightarrow> JUndefined | Some v \<Rightarrow> v)"
| "dot v k = JUndefined"

text \<open>\<^verbatim>\<open>v.k\<close> in general: a TypeError on null and undefined.\<close>

definition get :: "jsval \<Rightarrow> string \<Rightarrow> error + jsval" where
  "get v k = (if nullish v then Inl TypeError else Inr (dot v k))"

text \<open>\<^verbatim>\<open>v?.k\<close>.\<close>

definition opt_get :: "jsval \<Rightarrow> string \<Rightarrow> jsval" where
  "opt_get v k = (if nullish v then JUndefined else dot v k)"

text \<open>\<^verbatim>\<open>items.find(p)\<close>: the first match, or undefined.\<close>

definition find_js :: "(jsval \<Rightarrow> bool) \<Rightarrow> jsval list \<Rightarrow> jsval" where
  "find_js p items = (case find p items of None \<Rightarrow> JUndefined | Some item \<Rightarrow> item)"

subsection \<open>Coercions\<close>

text \<open>
  ToString. The text of a number is a parameter (\<open>num2str\<close>, Number::toString). An
  array is its elements joined by commas, null and undefined as the empty text. An
  object read from JSON has the text \<^verbatim>\<open>[object Object]\<close>, unless it has a
  key \<^verbatim>\<open>toString\<close> of its own: that value is no function, so no method gives a
  primitive and the coercion throws a TypeError.
\<close>

fun to_string :: "(jsnum \<Rightarrow> string) \<Rightarrow> jsval \<Rightarrow> error + string"
  and join :: "(jsnum \<Rightarrow> string) \<Rightarrow> jsval list \<Rightarrow> error + string" where
  "to_string num2str JUndefined = Inr ''undefined''"
| "to_string num2str JNull = Inr ''null''"
| "to_string num2str (JBool b) = Inr (if b then ''true'' else ''false'')"
| "to_string num2str (JNum n) = Inr (num2str n)"
| "to_string num2str (JStr s) = Inr s"
| "to_string num2str (JArr xs) = join num2str xs"
| "to_string num2str (JObj kvs) =
     (if map_of kvs ''toString'' = None then Inr ''[object Object]'' else Inl TypeError)"
| "join num2str [] = Inr []"
| "join num2str (x # xs) =
     (case (if nullish x then Inr [] else to_string num2str x) of
        Inl e \<Rightarrow> Inl e
      | Inr s \<Rightarrow>
          if xs = [] then Inr s
          else (case join num2str xs of Inl e \<Rightarrow> Inl e | Inr r \<Rightarrow> Inr (s @ '','' @ r)))"

text \<open>
  \<^verbatim>\<open>Number(v)\<close>. The number that a text denotes is a parameter (\<open>str2num\<close>,
  StringToNumber); arrays and objects go through their text.
\<close>

fun Number :: "(string \<Rightarrow> jsnum) \<Rightarrow> (jsnum \<Rightarrow> string) \<Rightarrow> jsval \<Rightarrow> error + jsnum" where
  "Number str2num num2str JUndefined = Inr NaN"
| "Number str2num num2str JNull = Inr (Finite 0)"
| "Number str2num num2str (JBool b) = Inr (Finite (if b then 1 else 0))"
| "Number str2num num2str (JNum n) = Inr n"
| "Number str2num num2str (JStr s) = Inr (str2num s)"
| "Number str2num num2str v =
     (case to_string num2str v of Inl e \<Rightarrow> Inl e | Inr s \<Rightarrow> Inr (str2num s))"

text \<open>
  \<^verbatim>\<open>JSON.parse(v)\<close> inside \<^verbatim>\<open>try { ... } catch\<close>: the argument is turned into
  text and the text is parsed; \<open>None\<close> stands for any exception, which the \<^verbatim>\<open>catch\<close>
  of both programs replaces by an error of its own. The parser of texts is a
  parameter (\<open>parse\<close>).
\<close>

definition JSON_parse ::
  "(string \<Rightarrow> jsval option) \<Rightarrow> (jsnum \<Rightarrow> string) \<Rightarrow> jsval \<Rightarrow> jsval option" where
  "JSON_parse parse num2str v =
     (case to_string num2str v of Inl e \<Rightarrow> None | Inr s \<Rightarrow> parse s)"

text \<open>
  The parts of the JavaScript runtime that the programs call and that stay parameters:
  the JSON parser of texts (\<open>None\<close> when it throws), StringToNumber,
  Number::toString (also the way \<^verbatim>\<open>JSON.stringify\<close> writes a finite number), and the
  quoting of a string by \<^verbatim>\<open>JSON.stringify\<close>.
\<close>

record runtime =
  parse :: "string \<Rightarrow> jsval option"
  str2num :: "string \<Rightarrow> jsnum"
  num2str :: "jsnum \<Rightarrow> string"
  quote :: "string \<Rightarrow> string"

section \<open>The app: \<^verbatim>\<open>fetchCurrentCo2\<close> of App.tsx\<close>

subsection \<open>The credential\<close>

text \<open>
  The three places a key is read from: \<^verbatim>\<open>process.env.EXPO_PUBLIC_OPENAI_API_KEY\<close>,
  \<^verbatim>\<open>process.env.OPENAI_API_KEY\<close> and \<^verbatim>\<open>Constants?.expoConfig?.extra?.openaiApiKey\<close>;
  \<open>None\<close> is \<^verbatim>\<open>undefined\<close>.
\<close>

record app_env =
  EXPO_PUBLIC_OPENAI_API_KEY :: "string option"
  OPENAI_API_KEY :: "string option"
  extra_openaiApiKey :: "string option"

text \<open>\<^verbatim>\<open>key && key.length > 0\<close>.\<close>

definition nonempty :: "string option \<Rightarrow> bool" where
  "nonempty key = (case key of None \<Rightarrow> False | Some k \<Rightarrow> k \<noteq> [] \<and> length k > 0)"

definition getOpenAIApiKey :: "app_env \<Rightarrow> string option" where
  "getOpenAIApiKey env =
     (let envKey = (case EXPO_PUBLIC_OPENAI_API_KEY env of
                      Some k \<Rightarrow> Some k
                    | None \<Rightarrow> OPENAI_API_KEY env)
      in if nonempty envKey then envKey
         else (let extraKey = extra_openaiApiKey env
               in if nonempty extraKey then extraKey else None))"

subsection \<open>The content items\<close>

text \<open>
  \<^verbatim>\<open>(json.output ?? []).flatMap((item) => item.content ?? [])\<close>. Reading
  \<^verbatim>\<open>json.output\<close> or \<^verbatim>\<open>item.content\<close> from null throws, and so does calling
  \<^verbatim>\<open>flatMap\<close> on an output that is no array. \<^verbatim>\<open>flatMap\<close> splices a result of
  the callback that is an array and appends any other result as one element.
\<close>

definition app_content_of :: "jsval \<Rightarrow> error + jsval list" where
  "app_content_of item =
     (case get item ''content'' of
        Inl e \<Rightarrow> Inl e
      | Inr c \<Rightarrow>
          (case (if nullish c then JArr [] else c) of
             JArr ys \<Rightarrow> Inr ys
           | r \<Rightarrow> Inr [r]))"

fun app_flatMap :: "jsval list \<Rightarrow> error + jsval list" where
  "app_flatMap [] = Inr []"
| "app_flatMap (item # items) =
     (case app_content_of item of
        Inl e \<Rightarrow> Inl e
      | Inr ys \<Rightarrow> (case app_flatMap items of Inl e \<Rightarrow> Inl e | Inr zs \<Rightarrow> Inr (ys @ zs)))"

definition app_contentItems :: "jsval \<Rightarrow> error + jsval list" where
  "app_contentItems json =
     (case get json ''output'' of
        Inl e \<Rightarrow> Inl e
      | Inr output \<Rightarrow>
          (case (if nullish output then JArr [] else output) of
             JArr items \<Rightarrow> app_flatMap items
           | _ \<Rightarrow> Inl TypeError))"

definition isJsonContent :: "jsval \<Rightarrow> bool" where
  "isJsonContent item =
     (if \<not> truthy item then False
      else if typeof item \<noteq> ''object'' then False
      else (let maybeType = dot item ''type''
            in maybeType = JStr ''json'' \<or> maybeType = JStr ''json_schema''))"

definition isTextContent :: "jsval \<Rightarrow> bool" where
  "isTextContent item =
     (if \<not> truthy item then False
      else if typeof item \<noteq> ''object'' then False
      else (let maybeText = dot item ''text'' in typeof maybeText = ''string''))"

subsection \<open>The two tiers and the validation\<close>

definition app_NoContent :: error where
  "app_NoContent = Error ''OpenAI did not return any textual content.''"

definition app_MalformedJson :: error where
  "app_MalformedJson = Error ''Failed to parse OpenAI response as JSON.''"

definition app_Validation :: error where
  "app_Validation = Error ''OpenAI response JSON was missing required fields.''"

text \<open>
  \<^verbatim>\<open>contentItems.find(isTextContent)?.text ?? (Array.isArray(json.output_text) ?
  json.output_text[0] : json.output_text)\<close>; \<open>json\<close> is not null here, its
  \<^verbatim>\<open>output\<close> has been read.
\<close>

definition rawContentCandidate :: "jsval \<Rightarrow> jsval list \<Rightarrow> jsval" where
  "rawContentCandidate json contentItems =
     (let text = opt_get (find_js isTextContent contentItems) ''text''
      in if nullish text then
           (case dot json ''output_text'' of
              JArr [] \<Rightarrow> JUndefined
            | JArr (x # xs) \<Rightarrow> x
            | v \<Rightarrow> v)
         else text)"

text \<open>The \<^verbatim>\<open>else\<close> branch: the text tier.\<close>

definition app_text_tier :: "runtime \<Rightarrow> jsval \<Rightarrow> jsval list \<Rightarrow> error + jsval" where
  "app_text_tier rt json contentItems =
     (let candidate = rawContentCandidate json contentItems
      in if \<not> truthy candidate then Inl app_NoContent
         else (case JSON_parse (parse rt) (num2str rt) candidate of
                 None \<Rightarrow> Inl app_MalformedJson
               | Some p \<Rightarrow> Inr p))"

text \<open>
  \<^verbatim>\<open>if (structuredContent?.json && typeof structuredContent.json === 'object')\<close>:
  the value of \<^verbatim>\<open>parsed\<close> after the two tiers.
\<close>

definition app_parsed :: "runtime \<Rightarrow> jsval \<Rightarrow> jsval list \<Rightarrow> error + jsval" where
  "app_parsed rt json contentItems =
     (let structuredContent = find_js isJsonContent contentItems;
          structured = opt_get structuredContent ''json''
      in if truthy structured \<and> typeof structured = ''object'' then Inr structured
         else app_text_tier rt json contentItems)"

text \<open>
  \<^verbatim>\<open>typeof parsed.ppm !== 'number' || !parsed.source || !parsed.timestamp\<close>, and
  \<^verbatim>\<open>return parsed\<close>: the Reading is the candidate itself.
\<close>

definition app_validate :: "jsval \<Rightarrow> error + jsval" where
  "app_validate parsed =
     (case get parsed ''ppm'' of
        Inl e \<Rightarrow> Inl e
      | Inr ppm \<Rightarrow>
          if typeof ppm \<noteq> ''number'' then Inl app_Validation
          else if \<not> truthy (dot parsed ''source'') then Inl app_Validation
          else if \<not> truthy (dot parsed ''timestamp'') then Inl app_Validation
          else Inr parsed)"

text \<open>Everything after \<^verbatim>\<open>await response.json()\<close>.\<close>

definition app_normalize :: "runtime \<Rightarrow> jsval \<Rightarrow> error + jsval" where
  "app_normalize rt json =
     (case app_contentItems json of
        Inl e \<Rightarrow> Inl e
      | Inr contentItems \<Rightarrow>
          (case app_parsed rt json contentItems of
             Inl e \<Rightarrow> Inl e
           | Inr parsed \<Rightarrow> app_validate parsed))"

subsection \<open>The request\<close>

text \<open>
  A request is kept by its address and its Authorization header; method, content type
  and body are the same constants in every call. \<^verbatim>\<open>fetch\<close> is the environment: it
  rejects (\<open>Inl\<close>) or gives a response, whose body is read as text or parsed as JSON.
\<close>

record request =
  url :: string
  authorization :: string

record response =
  ok :: bool
  status :: nat
  statusText :: string
  body :: string

text \<open>\<^verbatim>\<open>`Bearer ${key}`\<close>.\<close>

definition bearer :: "string option \<Rightarrow> string" where
  "bearer key = ''Bearer '' @ (case key of Some k \<Rightarrow> k | None \<Rightarrow> ''undefined'')"

definition endpoint :: string where
  "endpoint = ''https://api.openai.com/v1/responses''"

fun digits :: "nat \<Rightarrow> string" where
  "digits n =
     (if n < 10 then [char_of (48 + n)] else digits (n div 10) @ [char_of (48 + n mod 10)])"

definition request_failed :: "response \<Rightarrow> error" where
  "request_failed r =
     Error (''OpenAI request failed: '' @ digits (status r) @ '' '' @ statusText r
            @ '' - '' @ body r)"

definition app_Auth :: error where
  "app_Auth = Error (''Missing OpenAI API key. Provide EXPO_PUBLIC_OPENAI_API_KEY in your ''
     @ ''environment or set expo.extra.openaiApiKey in app.json.'')"

text \<open>
  \<^verbatim>\<open>fetchCurrentCo2\<close>: what it returns or throws, and the requests it has sent.
\<close>

definition fetchCurrentCo2 ::
  "runtime \<Rightarrow> app_env \<Rightarrow> (request \<Rightarrow> error + response) \<Rightarrow> (error + jsval) \<times> request list" where
  "fetchCurrentCo2 rt env fetch =
     (let apiKey = getOpenAIApiKey env
      in if \<not> nonempty apiKey then (Inl app_Auth, [])
         else (let req = \<lparr>url = endpoint, authorization = bearer apiKey\<rparr>
               in (case fetch req of
                     Inl e \<Rightarrow> (Inl e, [req])
                   | Inr r \<Rightarrow>
                       if \<not> ok r then (Inl (request_failed r), [req])
                       else (case parse rt (body r) of
                               None \<Rightarrow> (Inl SyntaxError, [req])
                             | Some json \<Rightarrow> (app_normalize rt json, [req])))))"

section \<open>The batch updater: scripts/update-co2.mjs\<close>

definition script_Auth :: error where
  "script_Auth = Error ''Missing OPENAI_API_KEY environment variable.''"

definition script_NoContent :: error where
  "script_NoContent = Error ''OpenAI response did not include usable content.''"

definition script_MalformedJson :: error where
  "script_MalformedJson = Error ''Failed to parse OpenAI response JSON.''"

definition script_Validation :: error where
  "script_Validation = Error ''OpenAI response JSON is missing required fields.''"

text \<open>
  \<^verbatim>\<open>Array.isArray(json.output) ? json.output : []\<close> and
  \<^verbatim>\<open>outputItems.flatMap((item) => (Array.isArray(item?.content) ? item.content : []))\<close>.
\<close>

definition outputItems :: "jsval \<Rightarrow> error + jsval list" where
  "outputItems json =
     (case get json ''output'' of
        Inl e \<Rightarrow> Inl e
      | Inr (JArr items) \<Rightarrow> Inr items
      | Inr _ \<Rightarrow> Inr [])"

definition script_content_of :: "jsval \<Rightarrow> jsval list" where
  "script_content_of item = (case opt_get item ''content'' of JArr ys \<Rightarrow> ys | _ \<Rightarrow> [])"

definition contentItems :: "jsval list \<Rightarrow> jsval list" where
  "contentItems items = concat (map script_content_of items)"

text \<open>The two predicates given to \<^verbatim>\<open>find\<close>.\<close>

definition is_structured :: "jsval \<Rightarrow> bool" where
  "is_structured item =
     (truthy item \<and> typeof item = ''object''
      \<and> (dot item ''type'' = JStr ''json'' \<or> dot item ''type'' = JStr ''json_schema''))"

definition is_text :: "jsval \<Rightarrow> bool" where
  "is_text item =
     (truthy item \<and> typeof item = ''object'' \<and> typeof (dot item ''text'') = ''string'')"

text \<open>
  \<^verbatim>\<open>textItem?.text ?? (Array.isArray(json.output_text) ?
  json.output_text.find((entry) => typeof entry === 'string') : json.output_text)\<close>.
\<close>

definition fallbackText :: "jsval \<Rightarrow> jsval list \<Rightarrow> jsval" where
  "fallbackText json items =
     (let textItem = find_js is_text items;
          text = opt_get textItem ''text''
      in if nullish text then
           (case dot json ''output_text'' of
              JArr entries \<Rightarrow> find_js (\<lambda>entry. typeof entry = ''string'') entries
            | v \<Rightarrow> v)
         else text)"

text \<open>The body of \<^verbatim>\<open>if (!reading)\<close>: the text tier.\<close>

definition script_text_tier :: "runtime \<Rightarrow> jsval \<Rightarrow> jsval list \<Rightarrow> error + jsval" where
  "script_text_tier rt json items =
     (let candidate = fallbackText json items
      in if \<not> truthy candidate then Inl script_NoContent
         else if typeof candidate \<noteq> ''string'' then Inl script_NoContent
         else (case JSON_parse (parse rt) (num2str rt) candidate of
                 None \<Rightarrow> Inl script_MalformedJson
               | Some p \<Rightarrow> Inr p))"

text \<open>The value of \<^verbatim>\<open>reading\<close> at line 88.\<close>

definition script_reading :: "runtime \<Rightarrow> jsval \<Rightarrow> jsval list \<Rightarrow> error + jsval" where
  "script_reading rt json items =
     (let structuredItem = find_js is_structured items;
          reading = opt_get structuredItem ''json''
      in if \<not> truthy reading then script_text_tier rt json items
         else Inr reading)"

text \<open>
  The fields of \<^verbatim>\<open>payload\<close> that come from the response. Where the record is
  built, \<^verbatim>\<open>source\<close> and \<^verbatim>\<open>timestamp\<close> are strings.
\<close>

record co2 =
  ppm :: jsnum
  timestamp :: string
  source :: string

fun string_of :: "jsval \<Rightarrow> string" where
  "string_of (JStr s) = s"
| "string_of v = []"

definition script_validate :: "runtime \<Rightarrow> jsval \<Rightarrow> error + co2" where
  "script_validate rt reading =
     (case Number (str2num rt) (num2str rt) (opt_get reading ''ppm'') of
        Inl e \<Rightarrow> Inl e
      | Inr n \<Rightarrow>
          (let src = (if typeof (opt_get reading ''source'') = ''string''
                      then dot reading ''source'' else JUndefined);
               ts = (if typeof (opt_get reading ''timestamp'') = ''string''
                     then dot reading ''timestamp'' else JUndefined)
           in if \<not> isFinite n then Inl script_Validation
              else if \<not> truthy src then Inl script_Validation
              else if \<not> truthy ts then Inl script_Validation
              else Inr \<lparr>ppm = n, timestamp = string_of ts, source = string_of src\<rparr>))"

text \<open>Lines 62 to 94: everything between \<^verbatim>\<open>await response.json()\<close> and the payload.\<close>

definition script_normalize :: "runtime \<Rightarrow> jsval \<Rightarrow> error + co2" where
  "script_normalize rt json =
     (case outputItems json of
        Inl e \<Rightarrow> Inl e
      | Inr items \<Rightarrow>
          (case script_reading rt json (contentItems items) of
             Inl e \<Rightarrow> Inl e
           | Inr reading \<Rightarrow> script_validate rt reading))"

subsection \<open>The whole run\<close>

text \<open>
  \<^verbatim>\<open>JSON.stringify(payload, null, 2)\<close> for the four fields of the payload, in the
  order the object literal gives them, followed by the newline that the script appends.
\<close>

definition newline :: string where
  "newline = [char_of (10::nat)]"

definition stringify_payload :: "runtime \<Rightarrow> co2 \<Rightarrow> string \<Rightarrow> string" where
  "stringify_payload rt p updated_at =
     ''{'' @ newline
     @ ''  '' @ quote rt ''ppm'' @ '': '' @ num2str rt (ppm p) @ '','' @ newline
     @ ''  '' @ quote rt ''timestamp'' @ '': '' @ quote rt (timestamp p) @ '','' @ newline
     @ ''  '' @ quote rt ''source'' @ '': '' @ quote rt (source p) @ '','' @ newline
     @ ''  '' @ quote rt ''updated_at'' @ '': '' @ quote rt updated_at @ newline
     @ ''}''"

definition fileUrl :: string where
  "fileUrl = ''data/latest_co2.json''"

text \<open>
  The state of a run: the files (a path to its content), the requests sent, the error
  that ended the run if one did, and the exit code of the process (an exception that
  nothing catches ends a Node process with code 1). The clock is the text of
  \<^verbatim>\<open>new Date().toISOString()\<close>. The write is taken to succeed.
\<close>

record run =
  files :: "string \<rightharpoonup> string"
  requests :: "request list"
  thrown :: "error option"
  exit_code :: nat

definition fail :: "(string \<rightharpoonup> string) \<Rightarrow> request list \<Rightarrow> error \<Rightarrow> run" where
  "fail fs reqs e = \<lparr>files = fs, requests = reqs, thrown = Some e, exit_code = 1\<rparr>"

definition update_co2 ::
  "runtime \<Rightarrow> string option \<Rightarrow> (request \<Rightarrow> error + response) \<Rightarrow> string
     \<Rightarrow> (string \<rightharpoonup> string) \<Rightarrow> run" where
  "update_co2 rt API_KEY fetch now fs =
     (if \<not> nonempty API_KEY then fail fs [] script_Auth
      else (let req = \<lparr>url = endpoint, authorization = bearer API_KEY\<rparr>
            in (case fetch req of
                  Inl e \<Rightarrow> fail fs [req] e
                | Inr r \<Rightarrow>
                    if \<not> ok r then fail fs [req] (request_failed r)
                    else (case parse rt (body r) of
                            None \<Rightarrow> fail fs [req] SyntaxError
                          | Some json \<Rightarrow>
                              (case script_normalize rt json of
                                 Inl e \<Rightarrow> fail fs [req] e
                               | Inr p \<Rightarrow>
                                   \<lparr>files = fs(fileUrl \<mapsto> stringify_payload rt p now @ newline),
                                    requests = [req], thrown = None, exit_code = 0\<rparr>)))))"

section \<open>Notions of the specification\<close>

text \<open>
  The type that App.tsx declares for the response, \<^verbatim>\<open>OpenAIResponse\<close>: an object
  whose \<^verbatim>\<open>output\<close> is absent or a list of objects, each with a \<^verbatim>\<open>content\<close>
  that is absent or a list of objects, and whose \<^verbatim>\<open>output_text\<close> is absent, a
  string or a list of strings.
\<close>

fun is_object :: "jsval \<Rightarrow> bool" where
  "is_object (JObj kvs) = True"
| "is_object v = False"

fun is_string :: "jsval \<Rightarrow> bool" where
  "is_string (JStr s) = True"
| "is_string v = False"

fun wf_content :: "jsval \<Rightarrow> bool" where
  "wf_content JUndefined = True"
| "wf_content (JArr cs) = list_all is_object cs"
| "wf_content v = False"

definition wf_item :: "jsval \<Rightarrow> bool" where
  "wf_item item = (is_object item \<and> wf_content (dot item ''content''))"

fun wf_output :: "jsval \<Rightarrow> bool" where
  "wf_output JUndefined = True"
| "wf_output (JArr items) = list_all wf_item items"
| "wf_output v = False"

fun wf_output_text :: "jsval \<Rightarrow> bool" where
  "wf_output_text JUndefined = True"
| "wf_output_text (JStr s) = True"
| "wf_output_text (JArr xs) = list_all is_string xs"
| "wf_output_text v = False"

definition OpenAIResponse :: "jsval \<Rightarrow> bool" where
  "OpenAIResponse json =
     (is_object json \<and> wf_output (dot json ''output'')
      \<and> wf_output_text (dot json ''output_text''))"

text \<open>
  A usable \<^verbatim>\<open>output_text\<close>: a string that is not empty, or a list whose first
  string is not empty.
\<close>

fun usable_output_text :: "jsval \<Rightarrow> bool" where
  "usable_output_text (JStr s) = (s \<noteq> [])"
| "usable_output_text (JArr xs) =
     (case filter is_string xs of [] \<Rightarrow> False | x # _ \<Rightarrow> x \<noteq> JStr [])"
| "usable_output_text v = False"

text \<open>
  What the app takes for a usable \<^verbatim>\<open>output_text\<close>: a truthy value that is no
  list, or a list whose first element is truthy.
\<close>

fun app_usable_output_text :: "jsval \<Rightarrow> bool" where
  "app_usable_output_text (JArr []) = False"
| "app_usable_output_text (JArr (x # xs)) = truthy x"
| "app_usable_output_text v = truthy v"

text \<open>
  A candidate whose three fields, where it has them, are of the types of the schema
  sent with the request: \<^verbatim>\<open>ppm\<close> a finite number, \<^verbatim>\<open>source\<close> and
  \<^verbatim>\<open>timestamp\<close> strings.
\<close>

fun absent_or_finite :: "jsval \<Rightarrow> bool" where
  "absent_or_finite JUndefined = True"
| "absent_or_finite (JNum n) = isFinite n"
| "absent_or_finite v = False"

fun absent_or_string :: "jsval \<Rightarrow> bool" where
  "absent_or_string JUndefined = True"
| "absent_or_string (JStr s) = True"
| "absent_or_string v = False"

definition schema_typed :: "jsval \<Rightarrow> bool" where
  "schema_typed c =
     (absent_or_finite (opt_get c ''ppm'') \<and> absent_or_string (opt_get c ''source'')
      \<and> absent_or_string (opt_get c ''timestamp''))"

text \<open>
  The results of the two programs agree: both fail, or both give a Reading and the
  three fields are equal.
\<close>

fun agree :: "error + jsval \<Rightarrow> error + co2 \<Rightarrow> bool" where
  "agree (Inl e) (Inl e') = True"
| "agree (Inr r) (Inr p) =
     (dot r ''ppm'' = JNum (ppm p) \<and> dot r ''source'' = JStr (source p)
      \<and> dot r ''timestamp'' = JStr (timestamp p))"
| "agree a b = False"

subsection \<open>Sample values\<close>

text \<open>
  The Reading of the specification's example, a text that denotes it, a response that
  carries it as a structured item, the text of that response, and an environment for
  the runs below. \<open>example_runtime\<close> knows these two texts and the number 421.3: on
  them it gives what \<^verbatim>\<open>JSON.parse\<close>, StringToNumber and Number::toString give.
\<close>

definition example_reading :: jsval where
  "example_reading =
     JObj [(''ppm'', JNum (Finite (4213 / 10))),
           (''source'', JStr ''https://example.org/co2''),
           (''timestamp'', JStr ''2024-05-01T00:00:00Z'')]"

definition example_text :: string where
  \<open>example_text =
     ''{"ppm":421.3,"source":"https://example.org/co2","timestamp":"2024-05-01T00:00:00Z"}''\<close>

definition example_response :: jsval where
  "example_response =
     JObj [(''output'', JArr [JObj [(''content'',
        JArr [JObj [(''type'', JStr ''json_schema''), (''json'', example_reading)]])]])]"

definition example_body :: string where
  \<open>example_body =
     ''{"output":[{"content":[{"type":"json_schema","json":{"ppm":421.3,''
     @ ''"source":"https://example.org/co2","timestamp":"2024-05-01T00:00:00Z"}}]}]}''\<close>

definition example_runtime :: runtime where
  "example_runtime =
     \<lparr>parse = (\<lambda>s. if s = example_text then Some example_reading
                   else if s = example_body then Some example_response
                   else None),
      str2num = (\<lambda>s. if s = ''421.3'' then Finite (4213 / 10) else NaN),
      num2str = (\<lambda>n. if n = Finite (4213 / 10) then ''421.3'' else ''NaN''),
      quote = (\<lambda>s. [CHR 0x22] @ s @ [CHR 0x22])\<rparr>"

text \<open>
  A runtime that knows the number 5 and its text: on them it gives what
  Number::toString, \<^verbatim>\<open>JSON.parse\<close> and StringToNumber give.
\<close>

definition five_runtime :: runtime where
  "five_runtime =
     \<lparr>parse = (\<lambda>s. if s = ''5'' then Some (JNum (Finite 5)) else None),
      str2num = (\<lambda>s. if s = ''5'' then Finite 5 else NaN),
      num2str = (\<lambda>n. if n = Finite 5 then ''5'' else ''NaN''),
      quote = (\<lambda>s. [CHR 0x22] @ s @ [CHR 0x22])\<rparr>"

definition example_fetch :: "request \<Rightarrow> error + response" where
  "example_fetch req =
     Inr \<lparr>ok = True, status = 200, statusText = ''OK'', body = example_body\<rparr>"

section \<open>Properties\<close>

subsection \<open>Reading a property\<close>

lemma get_JObj: "get (JObj kvs) k = Inr (dot (JObj kvs) k)"
  by (simp add: get_def)

lemma opt_get_JObj: "opt_get (JObj kvs) k = dot (JObj kvs) k"
  by (simp add: opt_get_def)

subsection \<open>The credential\<close>

text \<open>
  C7 says that a credential in any of the three places is used, the first available
  one winning, and that only the absence of all three gives the AuthError.
  \<^verbatim>\<open>getOpenAIApiKey\<close> treats an empty string as no credential, but it joins the
  two environment variables with \<^verbatim>\<open>??\<close>, which only skips \<^verbatim>\<open>undefined\<close>: with
  \<^verbatim>\<open>EXPO_PUBLIC_OPENAI_API_KEY\<close> set to the empty string and a key in
  \<^verbatim>\<open>OPENAI_API_KEY\<close>, the key is never looked at, no credential is found and
  \<^verbatim>\<open>fetchCurrentCo2\<close> throws the AuthError without sending a request.
\<close>

theorem getOpenAIApiKey_empty_first_masks_second:
  "getOpenAIApiKey \<lparr>EXPO_PUBLIC_OPENAI_API_KEY = Some [], OPENAI_API_KEY = Some ''sk-test'',
                     extra_openaiApiKey = None\<rparr> = None
   \<and> fetchCurrentCo2 rt \<lparr>EXPO_PUBLIC_OPENAI_API_KEY = Some [],
                           OPENAI_API_KEY = Some ''sk-test'',
                           extra_openaiApiKey = None\<rparr> fetch = (Inl app_Auth, [])"
  by (simp add: fetchCurrentCo2_def getOpenAIApiKey_def nonempty_def)

subsection \<open>A candidate without a source\<close>

lemma app_validate_no_source:
  "map_of kvs ''source'' = None \<Longrightarrow> app_validate (JObj kvs) = Inl app_Validation"
  by (simp add: app_validate_def get_JObj)

lemma script_validate_no_source:
  "map_of kvs ''source'' = None \<Longrightarrow>
   script_validate rt (JObj kvs) =
     (case Number (str2num rt) (num2str rt) (dot (JObj kvs) ''ppm'') of
        Inl e \<Rightarrow> Inl e | Inr n \<Rightarrow> Inl script_Validation)"
  by (simp add: script_validate_def opt_get_JObj split: sum.splits)

text \<open>
  C4 as stated fails: for a candidate with a \<^verbatim>\<open>ppm\<close> and a \<^verbatim>\<open>timestamp\<close> and no
  \<^verbatim>\<open>source\<close>, both programs throw their one validation error, and the word
  \<^verbatim>\<open>source\<close> is not in its message.
\<close>

theorem validation_message_names_source_counterexample:
  "app_normalize example_runtime
     (JObj [(''output'', JArr [JObj [(''content'', JArr [JObj [(''type'', JStr ''json''),
                  (''json'', JObj [(''ppm'', JNum (Finite (4213 / 10))),
                                   (''timestamp'', JStr ''2024-05-01T00:00:00Z'')])]])]])])
   = Inl (Error ''OpenAI response JSON was missing required fields.'')
   \<and> script_normalize example_runtime
     (JObj [(''output'', JArr [JObj [(''content'', JArr [JObj [(''type'', JStr ''json''),
                  (''json'', JObj [(''ppm'', JNum (Finite (4213 / 10))),
                                   (''timestamp'', JStr ''2024-05-01T00:00:00Z'')])]])]])])
   = Inl (Error ''OpenAI response JSON is missing required fields.'')
   \<and> \<not> sublist ''source'' ''OpenAI response JSON was missing required fields.''
   \<and> \<not> sublist ''source'' ''OpenAI response JSON is missing required fields.''"
  by code_simp

text \<open>
  C4, amended: for every candidate object without a \<^verbatim>\<open>source\<close>, normalization
  fails. The app throws the error with the fixed message
  \<^verbatim>\<open>OpenAI response JSON was missing required fields.\<close>; the script throws the one
  with the fixed message \<^verbatim>\<open>OpenAI response JSON is missing required fields.\<close>,
  unless the coercion of \<^verbatim>\<open>ppm\<close> to a number throws first. Neither message names
  a field.
\<close>

theorem missing_source_generic_message:
  assumes "map_of kvs ''source'' = None"
  shows "(app_contentItems json = Inr items \<and> app_parsed rt json items = Inr (JObj kvs)
            \<longrightarrow> app_normalize rt json =
                  Inl (Error ''OpenAI response JSON was missing required fields.''))
       \<and> (outputItems json = Inr outs
            \<and> script_reading rt json (contentItems outs) = Inr (JObj kvs)
            \<longrightarrow> script_normalize rt json =
                  (case Number (str2num rt) (num2str rt) (dot (JObj kvs) ''ppm'') of
                     Inl e \<Rightarrow> Inl e
                   | Inr n \<Rightarrow> Inl (Error ''OpenAI response JSON is missing required fields.'')))
       \<and> \<not> sublist ''source'' ''OpenAI response JSON was missing required fields.''
       \<and> \<not> sublist ''source'' ''OpenAI response JSON is missing required fields.''"
proof -
  have a: "app_validate (JObj kvs) = Inl app_Validation"
    using assms by (rule app_validate_no_source)
  have s: "script_validate rt (JObj kvs) =
     (case Number (str2num rt) (num2str rt) (dot (JObj kvs) ''ppm'') of
        Inl e \<Rightarrow> Inl e | Inr n \<Rightarrow> Inl script_Validation)"
    using assms by (rule script_validate_no_source)
  have m1: "\<not> sublist ''source'' ''OpenAI response JSON was missing required fields.''"
    by code_simp
  have m2: "\<not> sublist ''source'' ''OpenAI response JSON is missing required fields.''"
    by code_simp
  show ?thesis
    using a s m1 m2
    by (simp add: app_normalize_def script_normalize_def app_Validation_def
        script_Validation_def split: sum.splits)
qed

text \<open>
  C4, the amended claim at the candidate of the counterexample, given as the structured
  item of a response: the app and the script fail with their fixed messages.
\<close>

theorem missing_source_generic_message_witness:
  "app_normalize example_runtime
     (JObj [(''output'', JArr [JObj [(''content'', JArr [JObj [(''type'', JStr ''json''),
                  (''json'', JObj [(''ppm'', JNum (Finite (4213 / 10))),
                                   (''timestamp'', JStr ''2024-05-01T00:00:00Z'')])]])]])])
   = Inl (Error ''OpenAI response JSON was missing required fields.'')
   \<and> script_normalize example_runtime
     (JObj [(''output'', JArr [JObj [(''content'', JArr [JObj [(''type'', JStr ''json''),
                  (''json'', JObj [(''ppm'', JNum (Finite (4213 / 10))),
                                   (''timestamp'', JStr ''2024-05-01T00:00:00Z'')])]])]])])
   = Inl (Error ''OpenAI response JSON is missing required fields.'')"
proof -
  let ?kvs = "[(''ppm'', JNum (Finite (4213 / 10))),
               (''timestamp'', JStr ''2024-05-01T00:00:00Z'')]"
  let ?items = "[JObj [(''type'', JStr ''json''), (''json'', JObj ?kvs)]]"
  let ?outs = "[JObj [(''content'', JArr ?items)]]"
  let ?json = "JObj [(''output'', JArr ?outs)]"
  have h: "map_of ?kvs ''source'' = None" by simp
  have c: "app_contentItems ?json = Inr ?items" by code_simp
  have p: "app_parsed example_runtime ?json ?items = Inr (JObj ?kvs)" by code_simp
  have c': "outputItems ?json = Inr ?outs" by code_simp
  have p': "script_reading example_runtime ?json (contentItems ?outs) = Inr (JObj ?kvs)"
    by code_simp
  show ?thesis
    using missing_source_generic_message [OF h, of ?json ?items example_runtime ?outs] c p c' p'
    by simp
qed

subsection \<open>The validation\<close>

lemma typeof_string_iff: "typeof v = ''string'' \<longleftrightarrow> (\<exists>s. v = JStr s)"
  by (cases v) auto

lemma typeof_number_iff: "typeof v = ''number'' \<longleftrightarrow> (\<exists>n. v = JNum n)"
  by (cases v) auto

lemma isFinite_iff: "isFinite n \<longleftrightarrow> (\<exists>r. n = Finite r)"
  by (cases n) auto

lemma opt_get_JStr_dot: "opt_get c k = JStr s \<Longrightarrow> dot c k = JStr s"
  by (simp add: opt_get_def split: if_splits)

lemma script_validate_Inr_iff:
  "script_validate rt c = Inr p \<longleftrightarrow>
     (\<exists>r s t. Number (str2num rt) (num2str rt) (opt_get c ''ppm'') = Inr (Finite r)
        \<and> opt_get c ''source'' = JStr s \<and> s \<noteq> []
        \<and> opt_get c ''timestamp'' = JStr t \<and> t \<noteq> []
        \<and> p = \<lparr>ppm = Finite r, timestamp = t, source = s\<rparr>)"
  by (auto simp: script_validate_def Let_def script_Validation_def typeof_string_iff
      isFinite_iff opt_get_JStr_dot split: sum.splits)




lemma app_validate_Inr_iff:
  "app_validate c = Inr r \<longleftrightarrow>
     (r = c \<and> \<not> nullish c \<and> typeof (dot c ''ppm'') = ''number''
      \<and> truthy (dot c ''source'') \<and> truthy (dot c ''timestamp''))"
  by (auto simp: app_validate_def get_def split: if_splits)

lemma dot_not_undefined_not_nullish: "dot c k \<noteq> JUndefined \<Longrightarrow> \<not> nullish c"
  by (cases c) auto





subsection \<open>The Reading that is returned\<close>

lemma app_normalize_Inr:
  "app_normalize rt json = Inr r \<Longrightarrow>
   typeof (dot r ''ppm'') = ''number'' \<and> truthy (dot r ''source'') \<and> truthy (dot r ''timestamp'')"
  by (auto simp: app_normalize_def app_validate_Inr_iff split: sum.splits)

lemma fetchCurrentCo2_Inr:
  "fst (fetchCurrentCo2 rt env fetch) = Inr r \<Longrightarrow>
   \<exists>req resp json. fetch req = Inr resp \<and> ok resp \<and> parse rt (body resp) = Some json
      \<and> app_normalize rt json = Inr r"
  by (auto simp: fetchCurrentCo2_def Let_def split: if_splits sum.splits option.splits)

lemma script_normalize_Inr:
  "script_normalize rt json = Inr p \<Longrightarrow>
   isFinite (ppm p) \<and> timestamp p \<noteq> [] \<and> source p \<noteq> []"
  by (auto simp: script_normalize_def script_validate_Inr_iff split: sum.splits)

text \<open>
  C5 as stated fails: no check asks for a positive concentration. A structured item
  with \<^verbatim>\<open>ppm: -5\<close> is accepted by the app and by the script, and the Reading they
  return has the concentration -5.
\<close>

theorem negative_concentration_counterexample:
  "app_normalize example_runtime
     (JObj [(''output'', JArr [JObj [(''content'', JArr [JObj [(''type'', JStr ''json''),
                  (''json'', JObj [(''ppm'', JNum (Finite (- 5))),
                                   (''source'', JStr ''https://example.org/co2''),
                                   (''timestamp'', JStr ''2024-05-01T00:00:00Z'')])]])]])])
   = Inr (JObj [(''ppm'', JNum (Finite (- 5))),
                (''source'', JStr ''https://example.org/co2''),
                (''timestamp'', JStr ''2024-05-01T00:00:00Z'')])
   \<and> script_normalize example_runtime
     (JObj [(''output'', JArr [JObj [(''content'', JArr [JObj [(''type'', JStr ''json''),
                  (''json'', JObj [(''ppm'', JNum (Finite (- 5))),
                                   (''source'', JStr ''https://example.org/co2''),
                                   (''timestamp'', JStr ''2024-05-01T00:00:00Z'')])]])]])])
   = Inr \<lparr>ppm = Finite (- 5), timestamp = ''2024-05-01T00:00:00Z'',
          source = ''https://example.org/co2''\<rparr>
   \<and> \<not> (0::rat) < - 5"
  by code_simp

text \<open>
  C5, amended: the sign of the concentration is not checked. Every Reading that the
  script's normalization returns has a finite concentration and a timestamp and a source
  that are strings and not empty. Every Reading that \<^verbatim>\<open>fetchCurrentCo2\<close> returns has
  a concentration of type number and a source and a timestamp that are present and not
  empty (not falsy).
\<close>

theorem returned_reading_checked:
  "(fst (fetchCurrentCo2 rt env fetch) = Inr r \<longrightarrow>
      typeof (dot r ''ppm'') = ''number'' \<and> truthy (dot r ''source'')
      \<and> truthy (dot r ''timestamp''))
   \<and> (script_normalize rt json = Inr p \<longrightarrow>
      isFinite (ppm p) \<and> timestamp p \<noteq> [] \<and> source p \<noteq> [])"
  using fetchCurrentCo2_Inr [of rt env fetch r] app_normalize_Inr [of rt _ r]
    script_normalize_Inr [of rt json p]
  by blast

text \<open>
  C5, the amended claim at the example: the app's run against \<open>example_fetch\<close> and
  the script's normalization of \<open>example_response\<close> both return the Reading of the
  specification's example.
\<close>

theorem returned_reading_checked_witness:
  "typeof (dot example_reading ''ppm'') = ''number'' \<and> truthy (dot example_reading ''source'')
   \<and> truthy (dot example_reading ''timestamp'')
   \<and> isFinite (ppm \<lparr>ppm = Finite (4213 / 10), timestamp = ''2024-05-01T00:00:00Z'',
                      source = ''https://example.org/co2''\<rparr>)"
proof -
  let ?env = "\<lparr>EXPO_PUBLIC_OPENAI_API_KEY = Some ''sk-test'', OPENAI_API_KEY = None,
               extra_openaiApiKey = None\<rparr>"
  let ?p = "\<lparr>ppm = Finite (4213 / 10), timestamp = ''2024-05-01T00:00:00Z'',
            source = ''https://example.org/co2''\<rparr>"
  have a: "fst (fetchCurrentCo2 example_runtime ?env example_fetch) = Inr example_reading"
    by code_simp
  have b: "script_normalize example_runtime example_response = Inr ?p"
    by code_simp
  show ?thesis
    using returned_reading_checked
      [of example_runtime ?env example_fetch example_reading example_response ?p] a b
    by blast
qed

subsection \<open>The two tiers\<close>

lemma find_js_None: "find p xs = None \<Longrightarrow> find_js p xs = JUndefined"
  by (simp add: find_js_def)

lemma find_js_Some: "find p xs = Some x \<Longrightarrow> find_js p xs = x"
  by (simp add: find_js_def)

lemma find_Some_holds: "find p xs = Some x \<Longrightarrow> p x"
  by (induction xs) (auto split: if_splits)

lemma opt_get_JUndefined: "opt_get JUndefined k = JUndefined"
  by (simp add: opt_get_def)

lemma truthy_not_nullish: "truthy v \<Longrightarrow> \<not> nullish v"
  by (cases v) auto

lemma opt_get_truthy: "truthy v \<Longrightarrow> opt_get v k = dot v k"
  by (simp add: opt_get_def truthy_not_nullish)

lemma is_structured_eq: "is_structured item = isJsonContent item"
  by (auto simp: is_structured_def isJsonContent_def Let_def)

lemma is_text_eq: "is_text item = isTextContent item"
  by (auto simp: is_text_def isTextContent_def Let_def)

lemma isJsonContent_truthy: "isJsonContent item \<Longrightarrow> truthy item"
  by (simp add: isJsonContent_def split: if_splits)

lemma isTextContent_truthy: "isTextContent item \<Longrightarrow> truthy item"
  by (simp add: isTextContent_def split: if_splits)

lemma is_string_typeof: "is_string v \<longleftrightarrow> typeof v = ''string''"
  by (cases v) auto

lemma find_string_filter:
  "find (\<lambda>entry. typeof entry = ''string'') xs =
     (case filter is_string xs of [] \<Rightarrow> None | x # _ \<Rightarrow> Some x)"
  by (induction xs) (auto simp: is_string_typeof)

lemma rawContentCandidate_no_text:
  "find isTextContent items = None \<Longrightarrow>
   rawContentCandidate json items =
     (case dot json ''output_text'' of JArr [] \<Rightarrow> JUndefined | JArr (x # xs) \<Rightarrow> x | v \<Rightarrow> v)"
  by (simp add: rawContentCandidate_def find_js_None opt_get_JUndefined)

lemma fallbackText_no_text:
  "find is_text items = None \<Longrightarrow>
   fallbackText json items =
     (case dot json ''output_text'' of
        JArr entries \<Rightarrow> find_js (\<lambda>entry. typeof entry = ''string'') entries
      | v \<Rightarrow> v)"
  by (simp add: fallbackText_def find_js_None opt_get_JUndefined)

lemma app_parsed_no_structured:
  "find isJsonContent items = None \<Longrightarrow> app_parsed rt json items = app_text_tier rt json items"
  by (simp add: app_parsed_def find_js_None opt_get_JUndefined)

lemma script_reading_no_structured:
  "find is_structured items = None \<Longrightarrow>
   script_reading rt json items = script_text_tier rt json items"
  by (simp add: script_reading_def find_js_None opt_get_JUndefined)

lemma to_string_join_TypeError:
  shows "to_string n2s v = Inl e \<Longrightarrow> e = TypeError"
    and "join n2s vs = Inl e' \<Longrightarrow> e' = TypeError"
  by (induction n2s v and n2s vs arbitrary: e and e' rule: to_string_join.induct)
    (auto split: sum.splits if_splits)

lemma Number_TypeError: "Number s2n n2s v = Inl e \<Longrightarrow> e = TypeError"
  by (cases v) (auto split: sum.splits if_splits dest: to_string_join_TypeError)

lemma app_validate_not_NoContent: "app_validate c \<noteq> Inl app_NoContent"
  by (auto simp: app_validate_def get_def app_NoContent_def app_Validation_def
      split: if_splits)

lemma script_validate_not_NoContent: "script_validate rt c \<noteq> Inl script_NoContent"
proof
  assume a: "script_validate rt c = Inl script_NoContent"
  show False
  proof (cases "Number (str2num rt) (num2str rt) (opt_get c ''ppm'')")
    case (Inl e)
    then have "e = TypeError" by (rule Number_TypeError)
    with a Inl show False
      by (simp add: script_validate_def script_NoContent_def)
  next
    case (Inr n)
    with a show False
      by (auto simp: script_validate_def Let_def script_NoContent_def script_Validation_def
          split: if_splits)
  qed
qed

lemma app_candidate_truthy:
  "truthy (case v of JArr [] \<Rightarrow> JUndefined | JArr (x # xs) \<Rightarrow> x | w \<Rightarrow> w)
     \<longleftrightarrow> app_usable_output_text v"
  by (cases v rule: app_usable_output_text.cases) auto

lemma script_candidate_usable:
  "(let c = (case v of JArr entries \<Rightarrow> find_js (\<lambda>entry. typeof entry = ''string'') entries
                   | w \<Rightarrow> w)
    in truthy c \<and> typeof c = ''string'') \<longleftrightarrow> usable_output_text v"
proof (cases v)
  case (JArr xs)
  show ?thesis
  proof (cases "filter is_string xs")
    case Nil
    with JArr show ?thesis by (simp add: find_js_def find_string_filter)
  next
    case (Cons x ys)
    then have "x \<in> set (filter is_string xs)" by simp
    then have "is_string x" by simp
    then obtain s where "x = JStr s" by (cases x) auto
    with JArr Cons show ?thesis by (simp add: find_js_def find_string_filter)
  qed
qed auto

lemma app_text_tier_NoContent_iff:
  "(case app_text_tier rt json items of Inl e \<Rightarrow> Inl e | Inr p \<Rightarrow> app_validate p)
     = Inl app_NoContent \<longleftrightarrow> \<not> truthy (rawContentCandidate json items)"
  using app_validate_not_NoContent
  by (auto simp: app_text_tier_def Let_def app_NoContent_def app_MalformedJson_def
      split: option.splits)

lemma script_text_tier_NoContent_iff:
  "(case script_text_tier rt json items of Inl e \<Rightarrow> Inl e | Inr p \<Rightarrow> script_validate rt p)
     = Inl script_NoContent
   \<longleftrightarrow> \<not> (truthy (fallbackText json items) \<and> typeof (fallbackText json items) = ''string'')"
  using script_validate_not_NoContent
  by (auto simp: script_text_tier_def Let_def script_NoContent_def script_MalformedJson_def
      split: option.splits)

lemma declared_or_null_usable:
  "wf_output_text v \<or> v = JNull \<Longrightarrow> app_usable_output_text v \<longleftrightarrow> usable_output_text v"
proof (cases v)
  case (JArr xs)
  assume "wf_output_text v \<or> v = JNull"
  with JArr have w: "list_all is_string xs" by simp
  show ?thesis
  proof (cases xs)
    case Nil
    with JArr show ?thesis by simp
  next
    case (Cons x ys)
    with w obtain s where "x = JStr s" by (cases x) auto
    with JArr Cons show ?thesis by simp
  qed
qed auto

text \<open>
  C8 as stated fails for the app: it asks only whether the text candidate is truthy.
  With \<^verbatim>\<open>output_text: 5\<close>, no content item tagged as JSON and no content item
  with a text, the \<^verbatim>\<open>output_text\<close> is not usable, yet the app passes 5 to
  \<^verbatim>\<open>JSON.parse\<close>, gets the number 5 and fails with its ValidationError, not with
  its NoContentError.
\<close>

theorem app_parses_number_output_text_counterexample:
  "app_contentItems (JObj [(''output_text'', JNum (Finite 5))]) = Inr []
   \<and> \<not> usable_output_text (dot (JObj [(''output_text'', JNum (Finite 5))]) ''output_text'')
   \<and> app_normalize five_runtime (JObj [(''output_text'', JNum (Finite 5))])
     = Inl (Error ''OpenAI response JSON was missing required fields.'')"
  by code_simp

text \<open>
  C8, amended: for a response with no content item tagged as JSON and no content item
  with a text, the script fails with its NoContentError exactly when the
  \<^verbatim>\<open>output_text\<close> is not usable (neither a string that is not empty nor a list
  whose first string is not empty), and the app fails with its NoContentError exactly
  when the \<^verbatim>\<open>output_text\<close>, or its first element when it is a list, is falsy
  or missing. The two conditions are the same when the \<^verbatim>\<open>output_text\<close> is of its
  declared type (absent, a string or a list of strings) or null. The NoContentError of
  a program is neither its MalformedJsonError nor its ValidationError.
\<close>

theorem no_content_characterised:
  "(app_contentItems json = Inr items \<and> find isJsonContent items = None
      \<and> find isTextContent items = None
      \<longrightarrow> (app_normalize rt json = Inl app_NoContent
             \<longleftrightarrow> \<not> app_usable_output_text (dot json ''output_text'')))
   \<and> (outputItems json = Inr outs \<and> find is_structured (contentItems outs) = None
      \<and> find is_text (contentItems outs) = None
      \<longrightarrow> (script_normalize rt json = Inl script_NoContent
             \<longleftrightarrow> \<not> usable_output_text (dot json ''output_text'')))
   \<and> (wf_output_text (dot json ''output_text'') \<or> dot json ''output_text'' = JNull
      \<longrightarrow> (app_usable_output_text (dot json ''output_text'')
             \<longleftrightarrow> usable_output_text (dot json ''output_text'')))
   \<and> app_NoContent \<noteq> app_MalformedJson \<and> app_NoContent \<noteq> app_Validation
   \<and> script_NoContent \<noteq> script_MalformedJson \<and> script_NoContent \<noteq> script_Validation"
proof -
  have a: "app_normalize rt json = Inl app_NoContent
             \<longleftrightarrow> \<not> app_usable_output_text (dot json ''output_text'')"
    if "app_contentItems json = Inr items" "find isJsonContent items = None"
      "find isTextContent items = None"
  proof -
    have "app_normalize rt json =
        (case app_text_tier rt json items of Inl e \<Rightarrow> Inl e | Inr p \<Rightarrow> app_validate p)"
      using that by (simp add: app_normalize_def app_parsed_no_structured)
    moreover have "truthy (rawContentCandidate json items)
        \<longleftrightarrow> app_usable_output_text (dot json ''output_text'')"
      using that by (simp add: rawContentCandidate_no_text app_candidate_truthy)
    ultimately show ?thesis
      by (simp add: app_text_tier_NoContent_iff)
  qed
  have s: "script_normalize rt json = Inl script_NoContent
             \<longleftrightarrow> \<not> usable_output_text (dot json ''output_text'')"
    if "outputItems json = Inr outs" "find is_structured (contentItems outs) = None"
      "find is_text (contentItems outs) = None"
  proof -
    have "script_normalize rt json =
        (case script_text_tier rt json (contentItems outs) of
           Inl e \<Rightarrow> Inl e | Inr p \<Rightarrow> script_validate rt p)"
      using that by (simp add: script_normalize_def script_reading_no_structured)
    moreover have "truthy (fallbackText json (contentItems outs))
          \<and> typeof (fallbackText json (contentItems outs)) = ''string''
        \<longleftrightarrow> usable_output_text (dot json ''output_text'')"
      using that script_candidate_usable [of "dot json ''output_text''"]
      by (simp add: fallbackText_no_text Let_def)
    ultimately show ?thesis
      by (simp add: script_text_tier_NoContent_iff)
  qed
  have t: "app_usable_output_text (dot json ''output_text'')
             \<longleftrightarrow> usable_output_text (dot json ''output_text'')"
    if "wf_output_text (dot json ''output_text'') \<or> dot json ''output_text'' = JNull"
    using that by (rule declared_or_null_usable)
  have d: "app_NoContent \<noteq> app_MalformedJson \<and> app_NoContent \<noteq> app_Validation
   \<and> script_NoContent \<noteq> script_MalformedJson \<and> script_NoContent \<noteq> script_Validation"
    by (simp add: app_NoContent_def app_MalformedJson_def app_Validation_def
        script_NoContent_def script_MalformedJson_def script_Validation_def)
  from a s t d show ?thesis by blast
qed

text \<open>
  C8, the amended claim at three responses: one whose only content item is a refusal and
  whose \<^verbatim>\<open>output_text\<close> is the empty list, where both programs fail with their
  NoContentError; one with \<^verbatim>\<open>output_text: null\<close>, where the app does; one with
  \<^verbatim>\<open>output_text: 5\<close>, where the script does.
\<close>

theorem no_content_characterised_witness:
  "app_normalize example_runtime
     (JObj [(''output'', JArr [JObj [(''content'', JArr [JObj [(''type'', JStr ''refusal'')]])]]),
            (''output_text'', JArr [])]) = Inl app_NoContent
   \<and> script_normalize example_runtime
     (JObj [(''output'', JArr [JObj [(''content'', JArr [JObj [(''type'', JStr ''refusal'')]])]]),
            (''output_text'', JArr [])]) = Inl script_NoContent
   \<and> app_normalize example_runtime (JObj [(''output_text'', JNull)]) = Inl app_NoContent
   \<and> script_normalize five_runtime (JObj [(''output_text'', JNum (Finite 5))])
        = Inl script_NoContent"
proof -
  let ?items = "[JObj [(''type'', JStr ''refusal'')]]"
  let ?outs = "[JObj [(''content'', JArr ?items)]]"
  let ?json = "JObj [(''output'', JArr ?outs), (''output_text'', JArr [])]"
  let ?null = "JObj [(''output_text'', JNull)]"
  let ?five = "JObj [(''output_text'', JNum (Finite 5))]"
  have 1: "app_contentItems ?json = Inr ?items" by code_simp
  have 2: "find isJsonContent ?items = None" by code_simp
  have 3: "find isTextContent ?items = None" by code_simp
  have 4: "\<not> app_usable_output_text (dot ?json ''output_text'')" by code_simp
  have 5: "\<not> usable_output_text (dot ?json ''output_text'')" by code_simp
  have 6: "outputItems ?json = Inr ?outs" by code_simp
  have 7: "find is_structured (contentItems ?outs) = None" by code_simp
  have 8: "find is_text (contentItems ?outs) = None" by code_simp
  have a: "app_normalize example_runtime ?json = Inl app_NoContent
         \<and> script_normalize example_runtime ?json = Inl script_NoContent"
    using no_content_characterised [of ?json ?items example_runtime ?outs] 1 2 3 4 5 6 7 8
    by blast
  have 9: "app_contentItems ?null = Inr []" by code_simp
  have 10: "find isJsonContent [] = None \<and> find isTextContent [] = None" by simp
  have 11: "\<not> app_usable_output_text (dot ?null ''output_text'')" by code_simp
  have b: "app_normalize example_runtime ?null = Inl app_NoContent"
    using no_content_characterised [of ?null "[]" example_runtime "[]"] 9 10 11
    by blast
  have 12: "outputItems ?five = Inr []" by code_simp
  have 13: "find is_structured (contentItems []) = None \<and> find is_text (contentItems []) = None"
    by code_simp
  have 14: "\<not> usable_output_text (dot ?five ''output_text'')" by code_simp
  have c: "script_normalize five_runtime ?five = Inl script_NoContent"
    using no_content_characterised [of ?five "[]" five_runtime "[]"] 12 13 14
    by blast
  from a b c show ?thesis by simp
qed

subsection \<open>A list as \<^verbatim>\<open>output_text\<close>\<close>

lemma JSON_parse_JStr: "JSON_parse prs n2s (JStr s) = prs s"
  by (simp add: JSON_parse_def)

text \<open>
  C2 as stated fails for the script: it takes the first string of the list, not the
  first element. With \<^verbatim>\<open>output_text: [null, text]\<close> its candidate is the second
  element, and the run gives the Reading that this text denotes.
\<close>

theorem script_skips_first_element_counterexample:
  "fallbackText (JObj [(''output_text'', JArr [JNull, JStr example_text])]) []
     = JStr example_text
   \<and> script_normalize example_runtime
       (JObj [(''output_text'', JArr [JNull, JStr example_text])])
     = Inr \<lparr>ppm = Finite (4213 / 10), timestamp = ''2024-05-01T00:00:00Z'',
            source = ''https://example.org/co2''\<rparr>"
  by code_simp

text \<open>
  C2, amended: for a response with no content item tagged as JSON and no content item
  with a text, whose \<^verbatim>\<open>output_text\<close> is a list that is not empty, the app takes
  the first element of the list as the text candidate: it fails with the
  NoContentError when that element is falsy, and otherwise parses it and validates
  the result. The script takes the first element of the list that is a string, which
  is the first element whenever that one is a string: it fails with the NoContentError
  when that string is empty, and otherwise parses it and validates the result.
\<close>

theorem output_text_list_candidate:
  "(app_contentItems json = Inr items \<and> find isJsonContent items = None
      \<and> find isTextContent items = None \<and> dot json ''output_text'' = JArr (x # xs)
      \<longrightarrow> rawContentCandidate json items = x
          \<and> app_normalize rt json =
              (if truthy x
               then (case JSON_parse (parse rt) (num2str rt) x of
                       None \<Rightarrow> Inl app_MalformedJson
                     | Some p \<Rightarrow> app_validate p)
               else Inl app_NoContent))
   \<and> (outputItems json = Inr outs \<and> find is_structured (contentItems outs) = None
      \<and> find is_text (contentItems outs) = None \<and> dot json ''output_text'' = JArr ys
      \<and> filter is_string ys = JStr s # rest
      \<longrightarrow> fallbackText json (contentItems outs) = JStr s
          \<and> script_normalize rt json =
              (if s \<noteq> []
               then (case parse rt s of
                       None \<Rightarrow> Inl script_MalformedJson
                     | Some p \<Rightarrow> script_validate rt p)
               else Inl script_NoContent))
   \<and> (outputItems json = Inr outs \<and> find is_structured (contentItems outs) = None
      \<and> find is_text (contentItems outs) = None
      \<and> dot json ''output_text'' = JArr (JStr s # zs)
      \<longrightarrow> fallbackText json (contentItems outs) = JStr s)"
proof -
  have a: "rawContentCandidate json items = x
          \<and> app_normalize rt json =
              (if truthy x
               then (case JSON_parse (parse rt) (num2str rt) x of
                       None \<Rightarrow> Inl app_MalformedJson
                     | Some p \<Rightarrow> app_validate p)
               else Inl app_NoContent)"
    if "app_contentItems json = Inr items" "find isJsonContent items = None"
      "find isTextContent items = None" "dot json ''output_text'' = JArr (x # xs)"
  proof -
    have c: "rawContentCandidate json items = x"
      using that by (simp add: rawContentCandidate_no_text)
    then have "app_text_tier rt json items =
        (if truthy x
         then (case JSON_parse (parse rt) (num2str rt) x of
                 None \<Rightarrow> Inl app_MalformedJson | Some p \<Rightarrow> Inr p)
         else Inl app_NoContent)"
      by (simp add: app_text_tier_def)
    with that c show ?thesis
      by (simp add: app_normalize_def app_parsed_no_structured split: option.splits)
  qed
  have b: "fallbackText json (contentItems outs) = JStr s
          \<and> script_normalize rt json =
              (if s \<noteq> []
               then (case parse rt s of
                       None \<Rightarrow> Inl script_MalformedJson
                     | Some p \<Rightarrow> script_validate rt p)
               else Inl script_NoContent)"
    if "outputItems json = Inr outs" "find is_structured (contentItems outs) = None"
      "find is_text (contentItems outs) = None" "dot json ''output_text'' = JArr ys"
      "filter is_string ys = JStr s # rest" for ys rest
  proof -
    have c: "fallbackText json (contentItems outs) = JStr s"
      using that by (simp add: fallbackText_no_text find_js_def find_string_filter)
    then have "script_text_tier rt json (contentItems outs) =
        (if s \<noteq> []
         then (case parse rt s of None \<Rightarrow> Inl script_MalformedJson | Some p \<Rightarrow> Inr p)
         else Inl script_NoContent)"
      by (simp add: script_text_tier_def JSON_parse_JStr)
    with that c show ?thesis
      by (simp add: script_normalize_def script_reading_no_structured split: option.splits)
  qed
  have f: "fallbackText json (contentItems outs) = JStr s"
    if "outputItems json = Inr outs" "find is_structured (contentItems outs) = None"
      "find is_text (contentItems outs) = None"
      "dot json ''output_text'' = JArr (JStr s # zs)"
    using b [of "JStr s # zs" "filter is_string zs"] that by simp
  from a b [of ys rest] f show ?thesis by blast
qed

text \<open>
  C2, the amended claim at a list of two strings, the first of which denotes the
  Reading of the specification's example: both programs return that Reading.
\<close>

theorem output_text_list_candidate_witness:
  "rawContentCandidate (JObj [(''output_text'', JArr [JStr example_text, JStr ''''])]) []
     = JStr example_text
   \<and> app_normalize example_runtime
        (JObj [(''output_text'', JArr [JStr example_text, JStr ''''])])
     = Inr example_reading
   \<and> fallbackText (JObj [(''output_text'', JArr [JStr example_text, JStr ''''])])
        (contentItems [])
     = JStr example_text
   \<and> script_normalize example_runtime
        (JObj [(''output_text'', JArr [JStr example_text, JStr ''''])])
     = Inr \<lparr>ppm = Finite (4213 / 10), timestamp = ''2024-05-01T00:00:00Z'',
            source = ''https://example.org/co2''\<rparr>"
proof -
  let ?json = "JObj [(''output_text'', JArr [JStr example_text, JStr ''''])]"
  have 1: "app_contentItems ?json = Inr []" by code_simp
  have 2: "find isJsonContent [] = None" by simp
  have 3: "find isTextContent [] = None" by simp
  have 4: "dot ?json ''output_text'' = JArr [JStr example_text, JStr '''']" by code_simp
  have 5: "outputItems ?json = Inr []" by code_simp
  have 6: "find is_structured (contentItems []) = None" by code_simp
  have 7: "find is_text (contentItems []) = None" by code_simp
  have 8: "filter is_string [JStr example_text, JStr ''''] = JStr example_text # [JStr '''']"
    by simp
  have 9: "truthy (JStr example_text) \<and> example_text \<noteq> []" by code_simp
  have 10: "parse example_runtime example_text = Some example_reading"
    by (simp add: example_runtime_def)
  have 11: "app_validate example_reading = Inr example_reading" by code_simp
  have 12: "script_validate example_runtime example_reading
     = Inr \<lparr>ppm = Finite (4213 / 10), timestamp = ''2024-05-01T00:00:00Z'',
            source = ''https://example.org/co2''\<rparr>" by code_simp
  show ?thesis
    using output_text_list_candidate
      [of ?json "[]" "JStr example_text" "[JStr '''']" example_runtime "[]"
          "[JStr example_text, JStr '''']" example_text "[JStr '''']"]
      1 2 3 4 5 6 7 8 9 10 11 12
    by (simp add: JSON_parse_JStr)
qed

subsection \<open>The structured tier\<close>

lemma app_parsed_structured:
  assumes "find isJsonContent items = Some item" and "dot item ''json'' = JObj kvs"
  shows "app_parsed rt json items = Inr (JObj kvs)"
proof -
  have "truthy item"
    using assms(1) by (auto dest: find_Some_holds isJsonContent_truthy)
  then have "opt_get (find_js isJsonContent items) ''json'' = JObj kvs"
    using assms by (simp add: find_js_Some opt_get_truthy)
  then show ?thesis
    by (simp add: app_parsed_def)
qed

lemma script_reading_structured:
  assumes "find is_structured items = Some item" and "dot item ''json'' = JObj kvs"
  shows "script_reading rt json items = Inr (JObj kvs)"
proof -
  have "truthy item"
    using assms(1) by (auto dest: find_Some_holds simp: is_structured_def)
  then have "opt_get (find_js is_structured items) ''json'' = JObj kvs"
    using assms by (simp add: find_js_Some opt_get_truthy)
  then show ?thesis
    by (simp add: script_reading_def)
qed

lemma app_validate_valid:
  assumes "map_of kvs ''ppm'' = Some (JNum (Finite r))"
    and "map_of kvs ''source'' = Some (JStr s)" and "s \<noteq> []"
    and "map_of kvs ''timestamp'' = Some (JStr t)" and "t \<noteq> []"
  shows "app_validate (JObj kvs) = Inr (JObj kvs)"
  using assms by (simp add: app_validate_def get_JObj)

lemma script_validate_valid:
  assumes "map_of kvs ''ppm'' = Some (JNum (Finite r))"
    and "map_of kvs ''source'' = Some (JStr s)" and "s \<noteq> []"
    and "map_of kvs ''timestamp'' = Some (JStr t)" and "t \<noteq> []"
  shows "script_validate rt (JObj kvs) = Inr \<lparr>ppm = Finite r, timestamp = t, source = s\<rparr>"
  using assms by (simp add: script_validate_def opt_get_JObj)

text \<open>
  C1 as stated fails: the programs look at the first content item tagged as JSON only.
  When that item has no \<^verbatim>\<open>json\<close> and a later item carries the valid object, and
  there is no text, both programs fail with their NoContentError.
\<close>

theorem later_structured_item_counterexample:
  "app_normalize example_runtime
     (JObj [(''output'', JArr [JObj [(''content'',
        JArr [JObj [(''type'', JStr ''json'')],
              JObj [(''type'', JStr ''json''), (''json'', example_reading)]])]])])
     = Inl (Error ''OpenAI did not return any textual content.'')
   \<and> script_normalize example_runtime
     (JObj [(''output'', JArr [JObj [(''content'',
        JArr [JObj [(''type'', JStr ''json'')],
              JObj [(''type'', JStr ''json''), (''json'', example_reading)]])]])])
     = Inl (Error ''OpenAI response did not include usable content.'')"
  by code_simp

text \<open>
  C1, amended: when the first content item tagged \<^verbatim>\<open>json\<close> or
  \<^verbatim>\<open>json_schema\<close> embeds an object whose \<^verbatim>\<open>ppm\<close> is a finite number and whose
  \<^verbatim>\<open>source\<close> and \<^verbatim>\<open>timestamp\<close> are strings that are not empty, the app returns
  that object itself, and the script returns the Reading with exactly these three
  values. The result is the same for every runtime, so for every JSON parser: the text
  tier is not consulted.
\<close>

theorem first_structured_item_returned:
  assumes "map_of kvs ''ppm'' = Some (JNum (Finite r))"
    and "map_of kvs ''source'' = Some (JStr s)" and "s \<noteq> []"
    and "map_of kvs ''timestamp'' = Some (JStr t)" and "t \<noteq> []"
    and "dot item ''json'' = JObj kvs"
  shows "(app_contentItems json = Inr items \<and> find isJsonContent items = Some item
            \<longrightarrow> (\<forall>rt. app_normalize rt json = Inr (JObj kvs)))
       \<and> (outputItems json = Inr outs \<and> find is_structured (contentItems outs) = Some item
            \<longrightarrow> (\<forall>rt. script_normalize rt json
                         = Inr \<lparr>ppm = Finite r, timestamp = t, source = s\<rparr>))"
proof -
  have v: "app_validate (JObj kvs) = Inr (JObj kvs)"
    using assms(1-5) by (rule app_validate_valid)
  have w: "script_validate rt (JObj kvs) = Inr \<lparr>ppm = Finite r, timestamp = t, source = s\<rparr>"
    for rt
    using assms(1-5) by (rule script_validate_valid)
  have a: "app_normalize rt json = Inr (JObj kvs)"
    if "app_contentItems json = Inr items" "find isJsonContent items = Some item" for rt
    using that v app_parsed_structured [OF that(2) assms(6)]
    by (simp add: app_normalize_def)
  have b: "script_normalize rt json = Inr \<lparr>ppm = Finite r, timestamp = t, source = s\<rparr>"
    if "outputItems json = Inr outs" "find is_structured (contentItems outs) = Some item" for rt
    using that w script_reading_structured [OF that(2) assms(6)]
    by (simp add: script_normalize_def)
  from a b show ?thesis by blast
qed

text \<open>
  C1, the amended claim at the example of the specification: structured content
  \<^verbatim>\<open>{ppm: 421.3, source: "https://example.org/co2", timestamp:
  "2024-05-01T00:00:00Z"}\<close> gives the Reading with these values.
\<close>

theorem first_structured_item_returned_witness:
  "app_normalize example_runtime example_response = Inr example_reading
   \<and> script_normalize example_runtime example_response
     = Inr \<lparr>ppm = Finite (4213 / 10), timestamp = ''2024-05-01T00:00:00Z'',
            source = ''https://example.org/co2''\<rparr>"
proof -
  let ?kvs = "[(''ppm'', JNum (Finite (4213 / 10))),
               (''source'', JStr ''https://example.org/co2''),
               (''timestamp'', JStr ''2024-05-01T00:00:00Z'')]"
  let ?item = "JObj [(''type'', JStr ''json_schema''), (''json'', JObj ?kvs)]"
  let ?outs = "[JObj [(''content'', JArr [?item])]]"
  have 1: "map_of ?kvs ''ppm'' = Some (JNum (Finite (4213 / 10)))" by simp
  have 2: "map_of ?kvs ''source'' = Some (JStr ''https://example.org/co2'')" by simp
  have 3: "''https://example.org/co2'' \<noteq> []" by simp
  have 4: "map_of ?kvs ''timestamp'' = Some (JStr ''2024-05-01T00:00:00Z'')" by simp
  have 5: "''2024-05-01T00:00:00Z'' \<noteq> []" by simp
  have 6: "dot ?item ''json'' = JObj ?kvs" by simp
  have 7: "app_contentItems example_response = Inr [?item]" by code_simp
  have 8: "find isJsonContent [?item] = Some ?item" by code_simp
  have 9: "outputItems example_response = Inr ?outs" by code_simp
  have 10: "find is_structured (contentItems ?outs) = Some ?item" by code_simp
  have 11: "example_reading = JObj ?kvs" by (simp add: example_reading_def)
  show ?thesis
    using first_structured_item_returned [OF 1 2 3 4 5 6, of example_response "[?item]" ?outs]
      7 8 9 10 11
    by simp
qed

subsection \<open>A structured item without a usable object\<close>

lemma not_object_dot: "typeof v \<noteq> ''object'' \<Longrightarrow> dot v k = JUndefined"
  by (cases v) auto

lemma script_validate_not_object:
  "typeof v \<noteq> ''object'' \<Longrightarrow> script_validate rt v = Inl script_Validation"
  by (simp add: script_validate_def opt_get_def not_object_dot)

text \<open>
  C10 as stated fails for the script: it tests \<^verbatim>\<open>!reading\<close> only. A tagged item
  whose \<^verbatim>\<open>json\<close> is the string \<^verbatim>\<open>"n/a"\<close> is truthy, so the script keeps it as
  the candidate and fails with its ValidationError, although a text item of the same
  response denotes a valid Reading; the app falls through and returns that Reading.
\<close>

theorem script_keeps_truthy_json_counterexample:
  "script_normalize example_runtime
     (JObj [(''output'', JArr [JObj [(''content'',
        JArr [JObj [(''type'', JStr ''json''), (''json'', JStr ''n/a'')],
              JObj [(''type'', JStr ''output_text''), (''text'', JStr example_text)]])]])])
     = Inl (Error ''OpenAI response JSON is missing required fields.'')
   \<and> app_normalize example_runtime
     (JObj [(''output'', JArr [JObj [(''content'',
        JArr [JObj [(''type'', JStr ''json''), (''json'', JStr ''n/a'')],
              JObj [(''type'', JStr ''output_text''), (''text'', JStr example_text)]])]])])
     = Inr example_reading"
  by code_simp

text \<open>
  C10, amended: when the \<^verbatim>\<open>json\<close> of the first tagged content item is absent or
  falsy, both programs go on with the text tier and validate what it gives. When it is
  truthy and not of type object (a string that is not empty, a number other than 0 and
  NaN, \<^verbatim>\<open>true\<close>), the app still goes on with the text tier, and the script takes
  it as the candidate and fails with its ValidationError. An array is of type object.
\<close>

theorem unusable_json_falls_through:
  "(app_contentItems json = Inr items
      \<and> (\<not> truthy (opt_get (find_js isJsonContent items) ''json'')
          \<or> typeof (opt_get (find_js isJsonContent items) ''json'') \<noteq> ''object'')
      \<longrightarrow> app_normalize rt json =
            (case app_text_tier rt json items of Inl e \<Rightarrow> Inl e | Inr p \<Rightarrow> app_validate p))
   \<and> (outputItems json = Inr outs
      \<and> \<not> truthy (opt_get (find_js is_structured (contentItems outs)) ''json'')
      \<longrightarrow> script_normalize rt json =
            (case script_text_tier rt json (contentItems outs) of
               Inl e \<Rightarrow> Inl e | Inr p \<Rightarrow> script_validate rt p))
   \<and> (outputItems json = Inr outs
      \<and> truthy (opt_get (find_js is_structured (contentItems outs)) ''json'')
      \<and> typeof (opt_get (find_js is_structured (contentItems outs)) ''json'') \<noteq> ''object''
      \<longrightarrow> script_normalize rt json = Inl script_Validation)"
proof -
  have a: "app_normalize rt json =
            (case app_text_tier rt json items of Inl e \<Rightarrow> Inl e | Inr p \<Rightarrow> app_validate p)"
    if "app_contentItems json = Inr items"
      "\<not> truthy (opt_get (find_js isJsonContent items) ''json'')
       \<or> typeof (opt_get (find_js isJsonContent items) ''json'') \<noteq> ''object''"
  proof -
    have "app_parsed rt json items = app_text_tier rt json items"
      using that(2) by (auto simp: app_parsed_def Let_def)
    with that(1) show ?thesis by (simp add: app_normalize_def)
  qed
  have b: "script_normalize rt json =
            (case script_text_tier rt json (contentItems outs) of
               Inl e \<Rightarrow> Inl e | Inr p \<Rightarrow> script_validate rt p)"
    if "outputItems json = Inr outs"
      "\<not> truthy (opt_get (find_js is_structured (contentItems outs)) ''json'')"
  proof -
    have "script_reading rt json (contentItems outs)
            = script_text_tier rt json (contentItems outs)"
      using that(2) by (simp add: script_reading_def Let_def)
    with that(1) show ?thesis by (simp add: script_normalize_def)
  qed
  have c: "script_normalize rt json = Inl script_Validation"
    if "outputItems json = Inr outs"
      "truthy (opt_get (find_js is_structured (contentItems outs)) ''json'')"
      "typeof (opt_get (find_js is_structured (contentItems outs)) ''json'') \<noteq> ''object''"
  proof -
    have "script_reading rt json (contentItems outs)
            = Inr (opt_get (find_js is_structured (contentItems outs)) ''json'')"
      using that(2) by (simp add: script_reading_def Let_def)
    with that(1,3) show ?thesis
      by (simp add: script_normalize_def script_validate_not_object)
  qed
  from a b c show ?thesis by blast
qed

text \<open>
  C10, the amended claim at a response whose tagged item has \<^verbatim>\<open>json: null\<close> and
  whose text item denotes the Reading of the specification's example: both programs
  return that Reading.
\<close>

theorem unusable_json_falls_through_witness:
  "app_normalize example_runtime
     (JObj [(''output'', JArr [JObj [(''content'',
        JArr [JObj [(''type'', JStr ''json''), (''json'', JNull)],
              JObj [(''type'', JStr ''output_text''), (''text'', JStr example_text)]])]])])
     = Inr example_reading
   \<and> script_normalize example_runtime
     (JObj [(''output'', JArr [JObj [(''content'',
        JArr [JObj [(''type'', JStr ''json''), (''json'', JNull)],
              JObj [(''type'', JStr ''output_text''), (''text'', JStr example_text)]])]])])
     = Inr \<lparr>ppm = Finite (4213 / 10), timestamp = ''2024-05-01T00:00:00Z'',
            source = ''https://example.org/co2''\<rparr>"
proof -
  let ?items = "[JObj [(''type'', JStr ''json''), (''json'', JNull)],
                 JObj [(''type'', JStr ''output_text''), (''text'', JStr example_text)]]"
  let ?outs = "[JObj [(''content'', JArr ?items)]]"
  let ?json = "JObj [(''output'', JArr ?outs)]"
  let ?p = "\<lparr>ppm = Finite (4213 / 10), timestamp = ''2024-05-01T00:00:00Z'',
            source = ''https://example.org/co2''\<rparr>"
  have 1: "app_contentItems ?json = Inr ?items" by code_simp
  have 2: "\<not> truthy (opt_get (find_js isJsonContent ?items) ''json'')" by code_simp
  have 3: "app_text_tier example_runtime ?json ?items = Inr example_reading" by code_simp
  have 4: "app_validate example_reading = Inr example_reading" by code_simp
  have 5: "outputItems ?json = Inr ?outs" by code_simp
  have 6: "\<not> truthy (opt_get (find_js is_structured (contentItems ?outs)) ''json'')"
    by code_simp
  have 7: "script_text_tier example_runtime ?json (contentItems ?outs) = Inr example_reading"
    by code_simp
  have 8: "script_validate example_runtime example_reading = Inr ?p" by code_simp
  show ?thesis
    using unusable_json_falls_through [of ?json ?items example_runtime ?outs]
      1 2 3 4 5 6 7 8
    by simp
qed

subsection \<open>The run of the batch updater\<close>





subsection \<open>The app and the script\<close>

lemma is_object_JObj: "is_object v \<longleftrightarrow> (\<exists>kvs. v = JObj kvs)"
  by (cases v) auto

lemma app_content_of_wf:
  "wf_item item \<Longrightarrow> app_content_of item = Inr (script_content_of item)"
  by (cases "dot item ''content''")
    (auto simp: wf_item_def is_object_JObj app_content_of_def script_content_of_def
      get_JObj opt_get_JObj)

lemma app_flatMap_wf:
  "list_all wf_item items \<Longrightarrow> app_flatMap items = Inr (contentItems items)"
  by (induction items) (auto simp: contentItems_def app_content_of_wf)

lemma contentItems_agree:
  assumes "OpenAIResponse json"
  shows "\<exists>outs. outputItems json = Inr outs \<and> app_contentItems json = Inr (contentItems outs)"
proof -
  from assms obtain kvs where j: "json = JObj kvs"
    by (auto simp: OpenAIResponse_def is_object_JObj)
  from assms have w: "wf_output (dot json ''output'')"
    by (simp add: OpenAIResponse_def)
  show ?thesis
  proof (cases "dot json ''output''")
    case JUndefined
    with j show ?thesis
      by (simp add: outputItems_def app_contentItems_def get_JObj contentItems_def)
  next
    case (JArr items)
    with w have "list_all wf_item items" by simp
    with j JArr show ?thesis
      by (simp add: outputItems_def app_contentItems_def get_JObj app_flatMap_wf)
  qed (use w in auto)
qed

lemma is_structured_fun: "is_structured = isJsonContent"
  by (rule ext) (rule is_structured_eq)

lemma is_text_fun: "is_text = isTextContent"
  by (rule ext) (rule is_text_eq)

lemma text_of_text_item:
  "\<exists>s. opt_get (find_js isTextContent items) ''text'' = JUndefined
     \<or> opt_get (find_js isTextContent items) ''text'' = JStr s"
proof (cases "find isTextContent items")
  case None
  then show ?thesis by (simp add: find_js_None opt_get_JUndefined)
next
  case (Some item)
  then have "isTextContent item" by (rule find_Some_holds)
  then have "truthy item" and "typeof (dot item ''text'') = ''string''"
    by (auto simp: isTextContent_def Let_def split: if_splits)
  with Some show ?thesis
    by (auto simp: find_js_Some opt_get_truthy typeof_string_iff)
qed

lemma wf_output_text_candidates:
  assumes "wf_output_text v"
  shows "(case v of JArr entries \<Rightarrow> find_js (\<lambda>entry. typeof entry = ''string'') entries
           | w \<Rightarrow> w)
           = (case v of JArr [] \<Rightarrow> JUndefined | JArr (x # xs) \<Rightarrow> x | w \<Rightarrow> w)
       \<and> (\<exists>s. (case v of JArr [] \<Rightarrow> JUndefined | JArr (x # xs) \<Rightarrow> x | w \<Rightarrow> w) = JUndefined
             \<or> (case v of JArr [] \<Rightarrow> JUndefined | JArr (x # xs) \<Rightarrow> x | w \<Rightarrow> w) = JStr s)"
proof (cases v)
  case (JArr xs)
  show ?thesis
  proof (cases xs)
    case Nil
    with JArr show ?thesis by (simp add: find_js_def)
  next
    case (Cons x ys)
    with JArr assms obtain s where "x = JStr s" by (cases x) auto
    with JArr Cons show ?thesis by (simp add: find_js_def)
  qed
qed (use assms in auto)

lemma candidates_agree:
  assumes "wf_output_text (dot json ''output_text'')"
  shows "fallbackText json items = rawContentCandidate json items
       \<and> (\<exists>s. rawContentCandidate json items = JUndefined
             \<or> rawContentCandidate json items = JStr s)"
proof -
  let ?t = "opt_get (find_js isTextContent items) ''text''"
  from text_of_text_item [of items] obtain s where "?t = JUndefined \<or> ?t = JStr s"
    by blast
  then show ?thesis
  proof
    assume u: "?t = JUndefined"
    then have r: "rawContentCandidate json items =
        (case dot json ''output_text'' of JArr [] \<Rightarrow> JUndefined | JArr (x # xs) \<Rightarrow> x
         | w \<Rightarrow> w)"
      by (simp add: rawContentCandidate_def)
    from u have f: "fallbackText json items =
        (case dot json ''output_text'' of
           JArr entries \<Rightarrow> find_js (\<lambda>entry. typeof entry = ''string'') entries
         | w \<Rightarrow> w)"
      by (simp add: fallbackText_def is_text_fun)
    show ?thesis
      unfolding r f by (rule wf_output_text_candidates [OF assms])
  next
    assume "?t = JStr s"
    then show ?thesis
      by (simp add: fallbackText_def rawContentCandidate_def is_text_fun)
  qed
qed

lemma text_tiers_agree:
  assumes "wf_output_text (dot json ''output_text'')"
  shows "(\<exists>e e'. app_text_tier rt json items = Inl e \<and> script_text_tier rt json items = Inl e')
       \<or> (\<exists>c. app_text_tier rt json items = Inr c \<and> script_text_tier rt json items = Inr c)"
  using candidates_agree [OF assms, of items]
  by (auto simp: app_text_tier_def script_text_tier_def Let_def split: option.splits)

lemma tiers_agree:
  assumes "wf_output_text (dot json ''output_text'')"
    and "\<not> truthy (opt_get (find_js is_structured items) ''json'')
         \<or> typeof (opt_get (find_js is_structured items) ''json'') = ''object''"
  shows "(\<exists>e e'. app_parsed rt json items = Inl e \<and> script_reading rt json items = Inl e')
       \<or> (\<exists>c. app_parsed rt json items = Inr c \<and> script_reading rt json items = Inr c)"
  using assms(2) text_tiers_agree [OF assms(1), of rt items]
  by (auto simp: app_parsed_def script_reading_def is_structured_fun Let_def)

lemma validations_agree:
  assumes "schema_typed c"
  shows "agree (app_validate c) (script_validate rt c)"
proof (cases "nullish c")
  case True
  then show ?thesis
    by (cases c) (auto simp: app_validate_def script_validate_def get_def opt_get_def
        script_Validation_def)
next
  case False
  then have o: "opt_get c k = dot c k" for k by (simp add: opt_get_def)
  from assms have p: "absent_or_finite (dot c ''ppm'')"
    and s: "absent_or_string (dot c ''source'')"
    and t: "absent_or_string (dot c ''timestamp'')"
    by (simp_all add: schema_typed_def o)
  show ?thesis
    using False p s t
    by (cases "dot c ''ppm''"; cases "dot c ''source''"; cases "dot c ''timestamp''")
      (auto simp: app_validate_def script_validate_def get_def o app_Validation_def
        script_Validation_def isFinite_iff)
qed

text \<open>
  C6 as stated fails: for a structured item whose \<^verbatim>\<open>ppm\<close> is the numeric string
  \<^verbatim>\<open>"421.3"\<close> the app fails with its ValidationError and the script returns a
  Reading with the concentration 421.3.
\<close>

theorem programs_disagree_counterexample:
  "app_normalize example_runtime
     (JObj [(''output'', JArr [JObj [(''content'', JArr [JObj [(''type'', JStr ''json_schema''),
        (''json'', JObj [(''ppm'', JStr ''421.3''),
                         (''source'', JStr ''https://example.org/co2''),
                         (''timestamp'', JStr ''2024-05-01T00:00:00Z'')])]])]])])
     = Inl (Error ''OpenAI response JSON was missing required fields.'')
   \<and> script_normalize example_runtime
     (JObj [(''output'', JArr [JObj [(''content'', JArr [JObj [(''type'', JStr ''json_schema''),
        (''json'', JObj [(''ppm'', JStr ''421.3''),
                         (''source'', JStr ''https://example.org/co2''),
                         (''timestamp'', JStr ''2024-05-01T00:00:00Z'')])]])]])])
     = Inr \<lparr>ppm = Finite (4213 / 10), timestamp = ''2024-05-01T00:00:00Z'',
            source = ''https://example.org/co2''\<rparr>"
  by code_simp

text \<open>
  C6, amended: the two programs give the same result (both fail, or both give a
  Reading and the concentration, the source and the timestamp are equal) for every
  response that is of the declared type \<^verbatim>\<open>OpenAIResponse\<close>, whose first content item
  tagged as JSON, if there is one, has a \<^verbatim>\<open>json\<close> that is absent, falsy or of type
  object, and whose candidate, if one is obtained, has each of \<^verbatim>\<open>ppm\<close>,
  \<^verbatim>\<open>source\<close> and \<^verbatim>\<open>timestamp\<close> either absent or of the type of the schema (a
  finite number, a string, a string). The messages of the errors differ between the
  programs.
\<close>

theorem programs_agree_on_typed_responses:
  assumes "OpenAIResponse json" and "outputItems json = Inr outs"
    and "\<not> truthy (opt_get (find_js is_structured (contentItems outs)) ''json'')
         \<or> typeof (opt_get (find_js is_structured (contentItems outs)) ''json'') = ''object''"
    and "\<forall>c. script_reading rt json (contentItems outs) = Inr c \<longrightarrow> schema_typed c"
  shows "agree (app_normalize rt json) (script_normalize rt json)"
proof -
  from contentItems_agree [OF assms(1)] assms(2)
  have a: "app_contentItems json = Inr (contentItems outs)" by auto
  from assms(1) have w: "wf_output_text (dot json ''output_text'')"
    by (simp add: OpenAIResponse_def)
  from tiers_agree [OF w assms(3), of rt] show ?thesis
  proof
    assume "\<exists>e e'. app_parsed rt json (contentItems outs) = Inl e
              \<and> script_reading rt json (contentItems outs) = Inl e'"
    with a assms(2) show ?thesis
      by (auto simp: app_normalize_def script_normalize_def)
  next
    assume "\<exists>c. app_parsed rt json (contentItems outs) = Inr c
              \<and> script_reading rt json (contentItems outs) = Inr c"
    then obtain c where c: "app_parsed rt json (contentItems outs) = Inr c"
      "script_reading rt json (contentItems outs) = Inr c" by blast
    with assms(4) have "schema_typed c" by blast
    then have "agree (app_validate c) (script_validate rt c)" by (rule validations_agree)
    with a assms(2) c show ?thesis
      by (simp add: app_normalize_def script_normalize_def)
  qed
qed

text \<open>
  C6, the amended claim at the example response: both programs return the Reading of
  the specification's example.
\<close>

theorem programs_agree_on_typed_responses_witness:
  "agree (app_normalize example_runtime example_response)
         (script_normalize example_runtime example_response)
   \<and> app_normalize example_runtime example_response = Inr example_reading"
proof -
  let ?item = "JObj [(''type'', JStr ''json_schema''), (''json'', example_reading)]"
  let ?outs = "[JObj [(''content'', JArr [?item])]]"
  have 1: "OpenAIResponse example_response" by code_simp
  have 2: "outputItems example_response = Inr ?outs" by code_simp
  have 3: "\<not> truthy (opt_get (find_js is_structured (contentItems ?outs)) ''json'')
         \<or> typeof (opt_get (find_js is_structured (contentItems ?outs)) ''json'') = ''object''"
    by code_simp
  have 4: "script_reading example_runtime example_response (contentItems ?outs)
             = Inr example_reading"
    by code_simp
  have 5: "schema_typed example_reading" by code_simp
  have 6: "\<forall>c. script_reading example_runtime example_response (contentItems ?outs) = Inr c
             \<longrightarrow> schema_typed c"
    using 4 5 by simp
  have 7: "app_normalize example_runtime example_response = Inr example_reading"
    by code_simp
  show ?thesis
    using programs_agree_on_typed_responses [OF 1 2 3 6] 7 by simp
qed

subsection \<open>Further properties of the credential and of the text tier\<close>

text \<open>
  Without a credential no request is sent: when each of the three places is undefined
  or empty, \<^verbatim>\<open>fetchCurrentCo2\<close> throws its missing-key error and has sent nothing; a
  run of the script without \<^verbatim>\<open>OPENAI_API_KEY\<close> throws the script's missing-key
  error, sends nothing, writes nothing and ends with the exit code 1.
\<close>

theorem no_credential_no_request:
  "(\<not> nonempty (EXPO_PUBLIC_OPENAI_API_KEY env) \<and> \<not> nonempty (OPENAI_API_KEY env)
      \<and> \<not> nonempty (extra_openaiApiKey env)
      \<longrightarrow> fetchCurrentCo2 rt env fetch = (Inl app_Auth, []))
   \<and> (\<not> nonempty key
      \<longrightarrow> update_co2 rt key fetch now fs =
            \<lparr>files = fs, requests = [], thrown = Some script_Auth, exit_code = 1\<rparr>)"
  by (auto simp: fetchCurrentCo2_def getOpenAIApiKey_def update_co2_def fail_def Let_def
      nonempty_def split: option.splits)

text \<open>The same at an environment whose only variable is empty, and at a run without a key.\<close>

theorem no_credential_no_request_witness:
  "fetchCurrentCo2 example_runtime
     \<lparr>EXPO_PUBLIC_OPENAI_API_KEY = None, OPENAI_API_KEY = Some [],
      extra_openaiApiKey = None\<rparr> example_fetch = (Inl app_Auth, [])
   \<and> update_co2 example_runtime None example_fetch ''2024-05-02T12:00:00.000Z'' Map.empty
     = \<lparr>files = Map.empty, requests = [], thrown = Some script_Auth, exit_code = 1\<rparr>"
  using no_credential_no_request
    [of "\<lparr>EXPO_PUBLIC_OPENAI_API_KEY = None, OPENAI_API_KEY = Some [],
          extra_openaiApiKey = None\<rparr>" example_runtime example_fetch None
        "''2024-05-02T12:00:00.000Z''" Map.empty]
  by (simp add: nonempty_def)

text \<open>
  The order of the places in \<^verbatim>\<open>getOpenAIApiKey\<close>: a value of
  \<^verbatim>\<open>EXPO_PUBLIC_OPENAI_API_KEY\<close> that is not empty is the key; when that variable is
  undefined, a value of \<^verbatim>\<open>OPENAI_API_KEY\<close> that is not empty is the key; when
  neither variable has a value that is not empty, a value of
  \<^verbatim>\<open>expo.extra.openaiApiKey\<close> that is not empty is the key. With a key,
  \<^verbatim>\<open>fetchCurrentCo2\<close> sends one request, to the endpoint, with the key as the
  bearer token.
\<close>

theorem credential_order:
  "(nonempty (EXPO_PUBLIC_OPENAI_API_KEY env)
      \<longrightarrow> getOpenAIApiKey env = EXPO_PUBLIC_OPENAI_API_KEY env)
   \<and> (EXPO_PUBLIC_OPENAI_API_KEY env = None \<and> nonempty (OPENAI_API_KEY env)
      \<longrightarrow> getOpenAIApiKey env = OPENAI_API_KEY env)
   \<and> (\<not> nonempty (EXPO_PUBLIC_OPENAI_API_KEY env) \<and> \<not> nonempty (OPENAI_API_KEY env)
        \<and> nonempty (extra_openaiApiKey env)
      \<longrightarrow> getOpenAIApiKey env = extra_openaiApiKey env)
   \<and> (nonempty (getOpenAIApiKey env)
      \<longrightarrow> snd (fetchCurrentCo2 rt env fetch)
            = [\<lparr>url = endpoint, authorization = bearer (getOpenAIApiKey env)\<rparr>])"
proof -
  have 1: "getOpenAIApiKey env = EXPO_PUBLIC_OPENAI_API_KEY env"
    if "nonempty (EXPO_PUBLIC_OPENAI_API_KEY env)"
    using that by (auto simp: getOpenAIApiKey_def nonempty_def split: option.splits)
  have 2: "getOpenAIApiKey env = OPENAI_API_KEY env"
    if "EXPO_PUBLIC_OPENAI_API_KEY env = None" "nonempty (OPENAI_API_KEY env)"
    using that by (simp add: getOpenAIApiKey_def)
  have 3: "getOpenAIApiKey env = extra_openaiApiKey env"
    if "\<not> nonempty (EXPO_PUBLIC_OPENAI_API_KEY env)" "\<not> nonempty (OPENAI_API_KEY env)"
      "nonempty (extra_openaiApiKey env)"
    using that by (auto simp: getOpenAIApiKey_def Let_def split: option.splits)
  have 4: "snd (fetchCurrentCo2 rt env fetch)
            = [\<lparr>url = endpoint, authorization = bearer (getOpenAIApiKey env)\<rparr>]"
    if "nonempty (getOpenAIApiKey env)"
    using that by (simp add: fetchCurrentCo2_def Let_def split: sum.splits option.splits)
  from 1 2 3 4 show ?thesis by blast
qed

text \<open>The order at two environments: the second variable alone, and the extra field.\<close>

theorem credential_order_witness:
  "getOpenAIApiKey \<lparr>EXPO_PUBLIC_OPENAI_API_KEY = None, OPENAI_API_KEY = Some ''sk-node'',
                     extra_openaiApiKey = Some ''sk-extra''\<rparr> = Some ''sk-node''
   \<and> getOpenAIApiKey \<lparr>EXPO_PUBLIC_OPENAI_API_KEY = Some [], OPENAI_API_KEY = None,
                       extra_openaiApiKey = Some ''sk-extra''\<rparr> = Some ''sk-extra''"
proof -
  let ?e = "\<lparr>EXPO_PUBLIC_OPENAI_API_KEY = None, OPENAI_API_KEY = Some ''sk-node'',
             extra_openaiApiKey = Some ''sk-extra''\<rparr>"
  let ?f = "\<lparr>EXPO_PUBLIC_OPENAI_API_KEY = Some [], OPENAI_API_KEY = None,
             extra_openaiApiKey = Some ''sk-extra''\<rparr>"
  have a: "getOpenAIApiKey ?e = Some ''sk-node''"
    using credential_order [of ?e example_runtime example_fetch]
    by (simp add: nonempty_def)
  have b: "getOpenAIApiKey ?f = Some ''sk-extra''"
    using credential_order [of ?f example_runtime example_fetch]
    by (simp add: nonempty_def)
  from a b show ?thesis by simp
qed

lemma app_text_tier_text_item:
  assumes "find isTextContent items = Some ti" and "dot ti ''text'' = JStr s" and "s \<noteq> []"
  shows "app_text_tier rt json items =
           (case parse rt s of None \<Rightarrow> Inl app_MalformedJson | Some p \<Rightarrow> Inr p)"
proof -
  have "truthy ti" using assms(1) by (auto dest: find_Some_holds isTextContent_truthy)
  then have "rawContentCandidate json items = JStr s"
    using assms by (simp add: rawContentCandidate_def find_js_Some opt_get_truthy)
  with assms(3) show ?thesis
    by (simp add: app_text_tier_def JSON_parse_JStr)
qed

lemma script_text_tier_text_item:
  assumes "find is_text items = Some ti" and "dot ti ''text'' = JStr s" and "s \<noteq> []"
  shows "script_text_tier rt json items =
           (case parse rt s of None \<Rightarrow> Inl script_MalformedJson | Some p \<Rightarrow> Inr p)"
proof -
  have "truthy ti" using assms(1) by (auto dest: find_Some_holds simp: is_text_def)
  then have "fallbackText json items = JStr s"
    using assms by (simp add: fallbackText_def find_js_Some opt_get_truthy)
  with assms(3) show ?thesis
    by (simp add: script_text_tier_def JSON_parse_JStr)
qed

text \<open>
  The text tier on a content item: when no content item is tagged as JSON and the first
  content item with a text has a text that is not empty, a text that does not parse
  gives the MalformedJsonError of the program, and a text that parses gives the
  validation of the parsed value.
\<close>

theorem text_item_parsed:
  assumes "dot ti ''text'' = JStr s" and "s \<noteq> []"
  shows "(app_contentItems json = Inr items \<and> find isJsonContent items = None
            \<and> find isTextContent items = Some ti
            \<longrightarrow> app_normalize rt json =
                  (case parse rt s of
                     None \<Rightarrow> Inl app_MalformedJson
                   | Some p \<Rightarrow> app_validate p))
       \<and> (outputItems json = Inr outs \<and> find is_structured (contentItems outs) = None
            \<and> find is_text (contentItems outs) = Some ti
            \<longrightarrow> script_normalize rt json =
                  (case parse rt s of
                     None \<Rightarrow> Inl script_MalformedJson
                   | Some p \<Rightarrow> script_validate rt p))"
proof -
  have a: "app_normalize rt json =
             (case parse rt s of None \<Rightarrow> Inl app_MalformedJson | Some p \<Rightarrow> app_validate p)"
    if "app_contentItems json = Inr items" "find isJsonContent items = None"
      "find isTextContent items = Some ti"
    using that app_text_tier_text_item [OF that(3) assms, of rt json]
    by (simp add: app_normalize_def app_parsed_no_structured split: option.splits)
  have b: "script_normalize rt json =
             (case parse rt s of
                None \<Rightarrow> Inl script_MalformedJson | Some p \<Rightarrow> script_validate rt p)"
    if "outputItems json = Inr outs" "find is_structured (contentItems outs) = None"
      "find is_text (contentItems outs) = Some ti"
    using that script_text_tier_text_item [OF that(3) assms, of rt json]
    by (simp add: script_normalize_def script_reading_no_structured split: option.splits)
  from a b show ?thesis by blast
qed

text \<open>
  The text tier at two responses: a text item that denotes the Reading of the
  specification's example, read by the app, and a text item that is no JSON, read by
  the script.
\<close>

theorem text_item_parsed_witness:
  "app_normalize example_runtime
     (JObj [(''output'', JArr [JObj [(''content'',
        JArr [JObj [(''type'', JStr ''output_text''), (''text'', JStr example_text)]])]])])
     = Inr example_reading
   \<and> script_normalize example_runtime
     (JObj [(''output'', JArr [JObj [(''content'',
        JArr [JObj [(''type'', JStr ''output_text''), (''text'', JStr ''not json'')]])]])])
     = Inl script_MalformedJson"
proof -
  let ?ti = "JObj [(''type'', JStr ''output_text''), (''text'', JStr example_text)]"
  let ?tj = "JObj [(''type'', JStr ''output_text''), (''text'', JStr ''not json'')]"
  let ?json = "JObj [(''output'', JArr [JObj [(''content'', JArr [?ti])]])]"
  let ?bad = "JObj [(''output'', JArr [JObj [(''content'', JArr [?tj])]])]"
  have 1: "dot ?ti ''text'' = JStr example_text" by simp
  have 2: "example_text \<noteq> []" by code_simp
  have 3: "app_contentItems ?json = Inr [?ti]" by code_simp
  have 4: "find isJsonContent [?ti] = None" by code_simp
  have 5: "find isTextContent [?ti] = Some ?ti" by code_simp
  have 6: "parse example_runtime example_text = Some example_reading"
    by (simp add: example_runtime_def)
  have 7: "app_validate example_reading = Inr example_reading" by code_simp
  have a: "app_normalize example_runtime ?json = Inr example_reading"
    using text_item_parsed [OF 1 2, of ?json "[?ti]" example_runtime] 3 4 5 6 7 by simp
  have 8: "dot ?tj ''text'' = JStr ''not json''" by simp
  have 9: "''not json'' \<noteq> []" by simp
  have 10: "outputItems ?bad = Inr [JObj [(''content'', JArr [?tj])]]" by code_simp
  have 11: "find is_structured (contentItems [JObj [(''content'', JArr [?tj])]]) = None"
    by code_simp
  have 12: "find is_text (contentItems [JObj [(''content'', JArr [?tj])]]) = Some ?tj"
    by code_simp
  have 13: "parse example_runtime ''not json'' = None" by code_simp
  have b: "script_normalize example_runtime ?bad = Inl script_MalformedJson"
    using text_item_parsed [OF 8 9, of ?bad _ example_runtime
        "[JObj [(''content'', JArr [?tj])]]"] 10 11 12 13
    by simp
  from a b show ?thesis by simp
qed

end
